theory Spec2Isabelle
  imports Complex_Main "HOL-Library.Word"
begin

unbundle bit_operations_syntax

section \<open>C control flow: statements and the for statement\<close>

text \<open>
  Every macro of scope_gl.h expands to the header of a C \<^verbatim>\<open>for\<close> statement; the statement
  that follows the macro in the caller's code is the body of that loop. A statement
  completes normally, or by \<^verbatim>\<open>break\<close>, \<^verbatim>\<open>continue\<close>, \<^verbatim>\<open>return\<close>, or by a non-local exit
  (a C++ exception, \<^verbatim>\<open>longjmp\<close>). A statement that does not terminate has no result
  (\<open>None\<close>).
\<close>

datatype completion = Normal | Break | Continue | Return | Raise

type_synonym 's stmt = "'s \<Rightarrow> (completion \<times> 's) option"

text \<open>
  The header \<^verbatim>\<open>for (init; cond; incr)\<close>: the init clause declares the locals \<open>'l\<close> of the
  loop and runs its initialisers on the state, the condition reads the locals, the
  increment clause updates the locals and the state.
\<close>

datatype ('l, 's) for_header =
  For (for_init: "'s \<Rightarrow> 'l \<times> 's") (for_cond: "'l \<Rightarrow> bool") (for_incr: "'l \<Rightarrow> 's \<Rightarrow> 'l \<times> 's")

text \<open>
  The C semantics of the loop: while the condition holds, run the body; after a body that
  completes normally or by \<^verbatim>\<open>continue\<close>, run the increment clause and test again;
  \<^verbatim>\<open>break\<close> leaves the loop at once, without the increment clause, and the loop statement
  completes normally; \<^verbatim>\<open>return\<close> and a non-local exit leave the loop at once and
  propagate.
\<close>

partial_function (option) c_for_loop ::
  "('l \<Rightarrow> bool) \<Rightarrow> ('l \<Rightarrow> 's \<Rightarrow> 'l \<times> 's) \<Rightarrow> ('l \<Rightarrow> 's stmt) \<Rightarrow> 'l \<Rightarrow> 's \<Rightarrow> (completion \<times> 's) option"
where
  "c_for_loop cond incr body l s =
     (if cond l then
        (case body l s of
           None \<Rightarrow> None
         | Some (c, s') \<Rightarrow>
             (case c of
                Normal \<Rightarrow> (case incr l s' of (l', s'') \<Rightarrow> c_for_loop cond incr body l' s'')
              | Continue \<Rightarrow> (case incr l s' of (l', s'') \<Rightarrow> c_for_loop cond incr body l' s'')
              | Break \<Rightarrow> Some (Normal, s')
              | Return \<Rightarrow> Some (Return, s')
              | Raise \<Rightarrow> Some (Raise, s')))
      else Some (Normal, s))"

definition c_for :: "('l, 's) for_header \<Rightarrow> ('l \<Rightarrow> 's stmt) \<Rightarrow> 's stmt" where
  "c_for h body s =
     (case for_init h s of (l, s1) \<Rightarrow> c_for_loop (for_cond h) (for_incr h) body l s1)"

text \<open>
  What a header does before and after a body that cannot touch its locals: the state the
  body starts in, and the effect of the increment clause on the state the body left, with
  the locals as the init clause set them in the entry state \<open>s0\<close>.
\<close>

definition header_enter :: "('l, 's) for_header \<Rightarrow> 's \<Rightarrow> 's" where
  "header_enter h s = snd (for_init h s)"

definition header_exit :: "('l, 's) for_header \<Rightarrow> 's \<Rightarrow> 's \<Rightarrow> 's" where
  "header_exit h s0 s' = snd (for_incr h (fst (for_init h s0)) s')"

text \<open>
  The result of a statement \<open>for (...) body\<close> whose loop runs its body once, from the way
  the body completed: \<open>ex\<close> is the effect of the increment clause.
\<close>

fun after_body :: "('s \<Rightarrow> 's) \<Rightarrow> completion \<times> 's \<Rightarrow> completion \<times> 's" where
  "after_body ex (Normal, s) = (Normal, ex s)"
| "after_body ex (Continue, s) = (Normal, ex s)"
| "after_body ex (Break, s) = (Normal, s)"
| "after_body ex (Return, s) = (Return, s)"
| "after_body ex (Raise, s) = (Raise, s)"

section \<open>The helper macros\<close>

text \<open>
  \<^verbatim>\<open>#define scope_begin_end_var(begin, end, var)
      for (int UQ(var) = (begin, 0); (UQ(var) == 0); (UQ(var) += 1), end)\<close>
\<close>

definition scope_begin_end_var :: "('s \<Rightarrow> 's) \<Rightarrow> ('s \<Rightarrow> 's) \<Rightarrow> (32 word, 's) for_header" where
  "scope_begin_end_var begin_action end_action =
     For (\<lambda>s. (0, begin_action s)) (\<lambda>var. var = 0) (\<lambda>var s. (var + 1, end_action s))"

text \<open>
  \<^verbatim>\<open>#define TOKEN_PASTE(a, b) a##b
  #define CONCAT(a,b) TOKEN_PASTE(a,b)
  #define UQ(name) CONCAT(name, __LINE__)\<close>
  The preprocessor replaces \<^verbatim>\<open>__LINE__\<close> by the decimal number of the source line of the
  macro invocation and pastes it behind the name.
\<close>

fun decimal :: "nat \<Rightarrow> string" where
  "decimal n = (if n < 10 then [char_of (48 + n)] else decimal (n div 10) @ [char_of (48 + n mod 10)])"

definition TOKEN_PASTE :: "string \<Rightarrow> string \<Rightarrow> string" where
  "TOKEN_PASTE a b = a @ b"

definition CONCAT :: "string \<Rightarrow> string \<Rightarrow> string" where
  "CONCAT a b = TOKEN_PASTE a b"

definition UQ :: "string \<Rightarrow> nat \<Rightarrow> string" where
  "UQ name line = CONCAT name (decimal line)"

section \<open>The graphics context\<close>

text \<open>
  scope_gl.h calls into OpenGL and holds no state of its own. The types, enumerants and
  entry points below are those of the Khronos headers (\<^verbatim>\<open>glcorearb.h\<close>), which are not
  part of the repository. \<^verbatim>\<open>GLint\<close>, \<^verbatim>\<open>GLuint\<close> and \<^verbatim>\<open>GLenum\<close> are 32 bits wide, and the
  conversions between them keep the bits. \<^verbatim>\<open>GLfloat\<close> values are only copied by the
  macros, and compared and incremented at 0 and 1, so they are taken as reals.
\<close>

type_synonym GLint = "32 word"
type_synonym GLuint = "32 word"
type_synonym GLenum = "32 word"
type_synonym GLboolean = "8 word"
type_synonym GLfloat = real

named_theorems gl_enum \<open>the values of the OpenGL enumerants\<close>

definition GL_TEXTURE_1D :: GLenum where
  [gl_enum]: "GL_TEXTURE_1D = 0x0DE0"

definition GL_TEXTURE_2D :: GLenum where
  [gl_enum]: "GL_TEXTURE_2D = 0x0DE1"

definition GL_TEXTURE_3D :: GLenum where
  [gl_enum]: "GL_TEXTURE_3D = 0x806F"

definition GL_TEXTURE_1D_ARRAY :: GLenum where
  [gl_enum]: "GL_TEXTURE_1D_ARRAY = 0x8C18"

definition GL_TEXTURE_2D_ARRAY :: GLenum where
  [gl_enum]: "GL_TEXTURE_2D_ARRAY = 0x8C1A"

definition GL_TEXTURE_RECTANGLE :: GLenum where
  [gl_enum]: "GL_TEXTURE_RECTANGLE = 0x84F5"

definition GL_TEXTURE_CUBE_MAP :: GLenum where
  [gl_enum]: "GL_TEXTURE_CUBE_MAP = 0x8513"

definition GL_TEXTURE_CUBE_MAP_ARRAY :: GLenum where
  [gl_enum]: "GL_TEXTURE_CUBE_MAP_ARRAY = 0x9009"

definition GL_TEXTURE_BUFFER :: GLenum where
  [gl_enum]: "GL_TEXTURE_BUFFER = 0x8C2A"

definition GL_TEXTURE_2D_MULTISAMPLE :: GLenum where
  [gl_enum]: "GL_TEXTURE_2D_MULTISAMPLE = 0x9100"

definition GL_TEXTURE_2D_MULTISAMPLE_ARRAY :: GLenum where
  [gl_enum]: "GL_TEXTURE_2D_MULTISAMPLE_ARRAY = 0x9102"

definition GL_TEXTURE_BINDING_1D :: GLenum where
  [gl_enum]: "GL_TEXTURE_BINDING_1D = 0x8068"

definition GL_TEXTURE_BINDING_2D :: GLenum where
  [gl_enum]: "GL_TEXTURE_BINDING_2D = 0x8069"

definition GL_TEXTURE_BINDING_3D :: GLenum where
  [gl_enum]: "GL_TEXTURE_BINDING_3D = 0x806A"

definition GL_TEXTURE_BINDING_1D_ARRAY :: GLenum where
  [gl_enum]: "GL_TEXTURE_BINDING_1D_ARRAY = 0x8C1C"

definition GL_TEXTURE_BINDING_2D_ARRAY :: GLenum where
  [gl_enum]: "GL_TEXTURE_BINDING_2D_ARRAY = 0x8C1D"

definition GL_TEXTURE_BINDING_RECTANGLE :: GLenum where
  [gl_enum]: "GL_TEXTURE_BINDING_RECTANGLE = 0x84F6"

definition GL_TEXTURE_BINDING_CUBE_MAP :: GLenum where
  [gl_enum]: "GL_TEXTURE_BINDING_CUBE_MAP = 0x8514"

definition GL_TEXTURE_BINDING_CUBE_MAP_ARRAY :: GLenum where
  [gl_enum]: "GL_TEXTURE_BINDING_CUBE_MAP_ARRAY = 0x900A"

definition GL_TEXTURE_BINDING_BUFFER :: GLenum where
  [gl_enum]: "GL_TEXTURE_BINDING_BUFFER = 0x8C2C"

definition GL_TEXTURE_BINDING_2D_MULTISAMPLE :: GLenum where
  [gl_enum]: "GL_TEXTURE_BINDING_2D_MULTISAMPLE = 0x9104"

definition GL_TEXTURE_BINDING_2D_MULTISAMPLE_ARRAY :: GLenum where
  [gl_enum]: "GL_TEXTURE_BINDING_2D_MULTISAMPLE_ARRAY = 0x9105"

definition GL_CURRENT_PROGRAM :: GLenum where
  [gl_enum]: "GL_CURRENT_PROGRAM = 0x8B8D"

definition GL_VERTEX_ARRAY_BINDING :: GLenum where
  [gl_enum]: "GL_VERTEX_ARRAY_BINDING = 0x85B5"

definition GL_ARRAY_BUFFER :: GLenum where
  [gl_enum]: "GL_ARRAY_BUFFER = 0x8892"

definition GL_ARRAY_BUFFER_BINDING :: GLenum where
  [gl_enum]: "GL_ARRAY_BUFFER_BINDING = 0x8894"

definition GL_BUFFER_BINDING :: GLenum where
  [gl_enum]: "GL_BUFFER_BINDING = 0x9302"

definition GL_SHADER_STORAGE_BUFFER :: GLenum where
  [gl_enum]: "GL_SHADER_STORAGE_BUFFER = 0x90D2"

definition GL_SHADER_STORAGE_BUFFER_BINDING :: GLenum where
  [gl_enum]: "GL_SHADER_STORAGE_BUFFER_BINDING = 0x90D3"

definition GL_FRAMEBUFFER :: GLenum where
  [gl_enum]: "GL_FRAMEBUFFER = 0x8D40"

definition GL_DRAW_FRAMEBUFFER :: GLenum where
  [gl_enum]: "GL_DRAW_FRAMEBUFFER = 0x8CA9"

definition GL_READ_FRAMEBUFFER :: GLenum where
  [gl_enum]: "GL_READ_FRAMEBUFFER = 0x8CA8"

definition GL_FRAMEBUFFER_BINDING :: GLenum where
  [gl_enum]: "GL_FRAMEBUFFER_BINDING = 0x8CA6"

definition GL_READ_FRAMEBUFFER_BINDING :: GLenum where
  [gl_enum]: "GL_READ_FRAMEBUFFER_BINDING = 0x8CAA"

definition GL_RENDERBUFFER :: GLenum where
  [gl_enum]: "GL_RENDERBUFFER = 0x8D41"

definition GL_VIEWPORT :: GLenum where
  [gl_enum]: "GL_VIEWPORT = 0x0BA2"

definition GL_COLOR_CLEAR_VALUE :: GLenum where
  [gl_enum]: "GL_COLOR_CLEAR_VALUE = 0x0C22"

definition GL_BLEND_DST :: GLenum where
  [gl_enum]: "GL_BLEND_DST = 0x0BE0"

definition GL_BLEND_SRC :: GLenum where
  [gl_enum]: "GL_BLEND_SRC = 0x0BE1"

definition GL_BLEND :: GLenum where
  [gl_enum]: "GL_BLEND = 0x0BE2"

definition GL_BLEND_EQUATION :: GLenum where
  [gl_enum]: "GL_BLEND_EQUATION = 0x8009"

definition GL_CULL_FACE_MODE :: GLenum where
  [gl_enum]: "GL_CULL_FACE_MODE = 0x0B45"

definition GL_FRONT_FACE :: GLenum where
  [gl_enum]: "GL_FRONT_FACE = 0x0B46"

definition GL_FALSE :: GLboolean where
  [gl_enum]: "GL_FALSE = 0"

definition GL_TRUE :: GLboolean where
  [gl_enum]: "GL_TRUE = 1"

text \<open>
  The calls the header makes, with their arguments, in the order made; a query is a call
  too. For a query the pointer argument is left out: it names a local of the macro.
\<close>

datatype gl_call =
    Call_glGetIntegerv GLenum
  | Call_glGetBooleanv GLenum
  | Call_glGetFloatv GLenum
  | Call_glUseProgram GLuint
  | Call_glBindVertexArray GLuint
  | Call_glBindTexture GLenum GLuint
  | Call_glBindBuffer GLenum GLuint
  | Call_glBindBufferBase GLenum GLuint GLuint
  | Call_glEnable GLenum
  | Call_glDisable GLenum
  | Call_glBindFramebuffer GLenum GLuint
  | Call_glFramebufferTexture2D GLenum GLenum GLenum GLuint GLint
  | Call_glBindRenderbuffer GLenum GLuint
  | Call_glFramebufferRenderbuffer GLenum GLenum GLenum GLuint
  | Call_glViewport GLint GLint GLint GLint
  | Call_glClearColor GLfloat GLfloat GLfloat GLfloat
  | Call_glBlendFunc GLenum GLenum
  | Call_glBlendEquation GLenum
  | Call_glCullFace GLenum
  | Call_glFrontFace GLenum
  | Call_glGetTexParameteriv GLenum GLenum
  | Call_glTexParameteri GLenum GLenum GLint
  | Call_glGetUniformLocation GLuint string
  | Call_glGetUniformfv GLuint GLint
  | Call_glUniformMatrix4fv GLint GLint GLboolean "GLfloat list"
  | Call_glUniform1f GLint GLfloat

text \<open>What is attached to an attachment point of a framebuffer object.\<close>

datatype attachment = NoAttachment | TextureLevel GLuint GLint | RenderbufferObject GLuint

text \<open>
  The state of the context that the macros read and write, one field per state variable
  of the OpenGL state tables, and \<open>calls\<close>, the calls made so far. Binding points and
  capabilities are indexed by their enumerant; the model holds a variable for every
  enumerant, also for those OpenGL rejects with \<^verbatim>\<open>GL_INVALID_ENUM\<close>. Texture parameters
  belong to a texture object, attachments to a framebuffer object, uniform values and
  uniform locations to a program object.
\<close>

record gl_context =
  current_program :: GLuint
  vertex_array_binding :: GLuint
  texture_binding :: "GLenum \<Rightarrow> GLuint"
  buffer_binding :: "GLenum \<Rightarrow> GLuint"
  indexed_buffer_binding :: "GLenum \<Rightarrow> GLuint \<Rightarrow> GLuint"
  capability :: "GLenum \<Rightarrow> bool"
  draw_framebuffer_binding :: GLuint
  read_framebuffer_binding :: GLuint
  framebuffer_attachment :: "GLuint \<Rightarrow> GLenum \<Rightarrow> attachment"
  renderbuffer_binding :: GLuint
  viewport :: "GLint \<times> GLint \<times> GLint \<times> GLint"
  color_clear_value :: "GLfloat \<times> GLfloat \<times> GLfloat \<times> GLfloat"
  blend_src :: GLenum
  blend_dst :: GLenum
  blend_equation :: GLenum
  cull_face_mode :: GLenum
  front_face :: GLenum
  tex_parameter :: "GLuint \<Rightarrow> GLenum \<Rightarrow> GLint"
  uniform_location :: "GLuint \<Rightarrow> string \<Rightarrow> GLint"
  uniform_value :: "GLuint \<Rightarrow> GLint \<Rightarrow> GLfloat list"
  calls :: "gl_call list"

definition record_call :: "gl_call \<Rightarrow> gl_context \<Rightarrow> gl_context" where
  "record_call c s = s\<lparr>calls := calls s @ [c]\<rparr>"

subsection \<open>Queries\<close>

text \<open>
  The selector of \<^verbatim>\<open>glBindTexture\<close> for each binding enumerant of \<^verbatim>\<open>glGet\<close>, as the OpenGL
  state tables pair them.
\<close>

definition texture_binding_targets :: "(GLenum \<times> GLenum) list" where
  "texture_binding_targets =
     [(GL_TEXTURE_BINDING_1D, GL_TEXTURE_1D),
      (GL_TEXTURE_BINDING_2D, GL_TEXTURE_2D),
      (GL_TEXTURE_BINDING_3D, GL_TEXTURE_3D),
      (GL_TEXTURE_BINDING_1D_ARRAY, GL_TEXTURE_1D_ARRAY),
      (GL_TEXTURE_BINDING_2D_ARRAY, GL_TEXTURE_2D_ARRAY),
      (GL_TEXTURE_BINDING_RECTANGLE, GL_TEXTURE_RECTANGLE),
      (GL_TEXTURE_BINDING_CUBE_MAP, GL_TEXTURE_CUBE_MAP),
      (GL_TEXTURE_BINDING_CUBE_MAP_ARRAY, GL_TEXTURE_CUBE_MAP_ARRAY),
      (GL_TEXTURE_BINDING_BUFFER, GL_TEXTURE_BUFFER),
      (GL_TEXTURE_BINDING_2D_MULTISAMPLE, GL_TEXTURE_2D_MULTISAMPLE),
      (GL_TEXTURE_BINDING_2D_MULTISAMPLE_ARRAY, GL_TEXTURE_2D_MULTISAMPLE_ARRAY)]"

text \<open>
  The integer state a \<^verbatim>\<open>pname\<close> of \<^verbatim>\<open>glGetIntegerv\<close> names, for the state of this model. For
  any other enumerant nothing is written to the caller's memory: OpenGL raises
  \<^verbatim>\<open>GL_INVALID_ENUM\<close> there and leaves the memory as it was. \<^verbatim>\<open>GL_FRAMEBUFFER\<close>,
  \<^verbatim>\<open>GL_DRAW_FRAMEBUFFER\<close>, \<^verbatim>\<open>GL_READ_FRAMEBUFFER\<close> and \<^verbatim>\<open>GL_BUFFER_BINDING\<close> are such
  enumerants.
\<close>

definition integer_state :: "gl_context \<Rightarrow> GLenum \<Rightarrow> GLint list" where
  "integer_state s pname =
     (if pname = GL_CURRENT_PROGRAM then [current_program s]
      else if pname = GL_VERTEX_ARRAY_BINDING then [vertex_array_binding s]
      else if pname = GL_ARRAY_BUFFER_BINDING then [buffer_binding s GL_ARRAY_BUFFER]
      else if pname = GL_SHADER_STORAGE_BUFFER_BINDING then [buffer_binding s GL_SHADER_STORAGE_BUFFER]
      else if pname = GL_FRAMEBUFFER_BINDING then [draw_framebuffer_binding s]
      else if pname = GL_READ_FRAMEBUFFER_BINDING then [read_framebuffer_binding s]
      else if pname = GL_VIEWPORT then (case viewport s of (x, y, w, h) \<Rightarrow> [x, y, w, h])
      else if pname = GL_BLEND_SRC then [blend_src s]
      else if pname = GL_BLEND_DST then [blend_dst s]
      else if pname = GL_BLEND_EQUATION then [blend_equation s]
      else if pname = GL_CULL_FACE_MODE then [cull_face_mode s]
      else if pname = GL_FRONT_FACE then [front_face s]
      else (case map_of texture_binding_targets pname of
              Some target \<Rightarrow> [texture_binding s target]
            | None \<Rightarrow> []))"

definition glGetIntegerv :: "GLenum \<Rightarrow> gl_context \<Rightarrow> GLint list \<times> gl_context" where
  "glGetIntegerv pname s = (integer_state s pname, record_call (Call_glGetIntegerv pname) s)"

text \<open>\<^verbatim>\<open>glGetBooleanv\<close> on a capability writes one \<^verbatim>\<open>GLboolean\<close>, as \<^verbatim>\<open>glIsEnabled\<close> returns it.\<close>

definition glGetBooleanv :: "GLenum \<Rightarrow> gl_context \<Rightarrow> GLboolean \<times> gl_context" where
  "glGetBooleanv pname s =
     (if capability s pname then GL_TRUE else GL_FALSE, record_call (Call_glGetBooleanv pname) s)"

definition glGetFloatv :: "GLenum \<Rightarrow> gl_context \<Rightarrow> GLfloat list \<times> gl_context" where
  "glGetFloatv pname s =
     (if pname = GL_COLOR_CLEAR_VALUE then (case color_clear_value s of (r, g, b, a) \<Rightarrow> [r, g, b, a])
      else [],
      record_call (Call_glGetFloatv pname) s)"

definition glGetTexParameteriv :: "GLenum \<Rightarrow> GLenum \<Rightarrow> gl_context \<Rightarrow> GLint list \<times> gl_context" where
  "glGetTexParameteriv target pname s =
     ([tex_parameter s (texture_binding s target) pname],
      record_call (Call_glGetTexParameteriv target pname) s)"

text \<open>A name that is no active uniform of the program has the location -1.\<close>

definition glGetUniformLocation :: "GLuint \<Rightarrow> string \<Rightarrow> gl_context \<Rightarrow> GLint \<times> gl_context" where
  "glGetUniformLocation program name s =
     (uniform_location s program name, record_call (Call_glGetUniformLocation program name) s)"

text \<open>At the location -1 \<^verbatim>\<open>glGetUniformfv\<close> raises an error and writes nothing.\<close>

definition glGetUniformfv :: "GLuint \<Rightarrow> GLint \<Rightarrow> gl_context \<Rightarrow> GLfloat list \<times> gl_context" where
  "glGetUniformfv program location s =
     (if location = - 1 then [] else uniform_value s program location,
      record_call (Call_glGetUniformfv program location) s)"

subsection \<open>State changes\<close>

definition glUseProgram :: "GLuint \<Rightarrow> gl_context \<Rightarrow> gl_context" where
  "glUseProgram program s = record_call (Call_glUseProgram program) (s\<lparr>current_program := program\<rparr>)"

definition glBindVertexArray :: "GLuint \<Rightarrow> gl_context \<Rightarrow> gl_context" where
  "glBindVertexArray array s =
     record_call (Call_glBindVertexArray array) (s\<lparr>vertex_array_binding := array\<rparr>)"

definition glBindTexture :: "GLenum \<Rightarrow> GLuint \<Rightarrow> gl_context \<Rightarrow> gl_context" where
  "glBindTexture target texture s =
     record_call (Call_glBindTexture target texture)
       (s\<lparr>texture_binding := (texture_binding s)(target := texture)\<rparr>)"

definition glBindBuffer :: "GLenum \<Rightarrow> GLuint \<Rightarrow> gl_context \<Rightarrow> gl_context" where
  "glBindBuffer target buffer s =
     record_call (Call_glBindBuffer target buffer)
       (s\<lparr>buffer_binding := (buffer_binding s)(target := buffer)\<rparr>)"

text \<open>
  \<^verbatim>\<open>glBindBufferBase\<close> binds the buffer to the indexed binding point and to the generic
  binding point of the target.
\<close>

definition glBindBufferBase :: "GLenum \<Rightarrow> GLuint \<Rightarrow> GLuint \<Rightarrow> gl_context \<Rightarrow> gl_context" where
  "glBindBufferBase target index buffer s =
     record_call (Call_glBindBufferBase target index buffer)
       (s\<lparr>indexed_buffer_binding :=
            (indexed_buffer_binding s)(target := (indexed_buffer_binding s target)(index := buffer)),
          buffer_binding := (buffer_binding s)(target := buffer)\<rparr>)"

definition glEnable :: "GLenum \<Rightarrow> gl_context \<Rightarrow> gl_context" where
  "glEnable cap s = record_call (Call_glEnable cap) (s\<lparr>capability := (capability s)(cap := True)\<rparr>)"

definition glDisable :: "GLenum \<Rightarrow> gl_context \<Rightarrow> gl_context" where
  "glDisable cap s = record_call (Call_glDisable cap) (s\<lparr>capability := (capability s)(cap := False)\<rparr>)"

text \<open>
  \<^verbatim>\<open>GL_FRAMEBUFFER\<close> binds the draw and the read framebuffer; any target but the three is
  an error and binds nothing.
\<close>

definition glBindFramebuffer :: "GLenum \<Rightarrow> GLuint \<Rightarrow> gl_context \<Rightarrow> gl_context" where
  "glBindFramebuffer target framebuffer s =
     record_call (Call_glBindFramebuffer target framebuffer)
       (if target = GL_FRAMEBUFFER then
          s\<lparr>draw_framebuffer_binding := framebuffer, read_framebuffer_binding := framebuffer\<rparr>
        else if target = GL_DRAW_FRAMEBUFFER then s\<lparr>draw_framebuffer_binding := framebuffer\<rparr>
        else if target = GL_READ_FRAMEBUFFER then s\<lparr>read_framebuffer_binding := framebuffer\<rparr>
        else s)"

text \<open>The framebuffer object an attachment call works on: the one bound to its target.\<close>

definition bound_framebuffer :: "gl_context \<Rightarrow> GLenum \<Rightarrow> GLuint option" where
  "bound_framebuffer s target =
     (if target = GL_FRAMEBUFFER \<or> target = GL_DRAW_FRAMEBUFFER then Some (draw_framebuffer_binding s)
      else if target = GL_READ_FRAMEBUFFER then Some (read_framebuffer_binding s)
      else None)"

definition attach :: "GLenum \<Rightarrow> GLenum \<Rightarrow> attachment \<Rightarrow> gl_context \<Rightarrow> gl_context" where
  "attach target point a s =
     (case bound_framebuffer s target of
        None \<Rightarrow> s
      | Some fb \<Rightarrow>
          s\<lparr>framebuffer_attachment :=
               (framebuffer_attachment s)(fb := (framebuffer_attachment s fb)(point := a))\<rparr>)"

text \<open>Attaching the texture or the renderbuffer 0 detaches what was attached.\<close>

definition glFramebufferTexture2D ::
  "GLenum \<Rightarrow> GLenum \<Rightarrow> GLenum \<Rightarrow> GLuint \<Rightarrow> GLint \<Rightarrow> gl_context \<Rightarrow> gl_context" where
  "glFramebufferTexture2D target point textarget texture level s =
     record_call (Call_glFramebufferTexture2D target point textarget texture level)
       (attach target point (if texture = 0 then NoAttachment else TextureLevel texture level) s)"

definition glFramebufferRenderbuffer ::
  "GLenum \<Rightarrow> GLenum \<Rightarrow> GLenum \<Rightarrow> GLuint \<Rightarrow> gl_context \<Rightarrow> gl_context" where
  "glFramebufferRenderbuffer target point renderbuffertarget renderbuffer s =
     record_call (Call_glFramebufferRenderbuffer target point renderbuffertarget renderbuffer)
       (attach target point
          (if renderbuffer = 0 then NoAttachment else RenderbufferObject renderbuffer) s)"

text \<open>\<^verbatim>\<open>GL_RENDERBUFFER\<close> is the only target of \<^verbatim>\<open>glBindRenderbuffer\<close>.\<close>

definition glBindRenderbuffer :: "GLenum \<Rightarrow> GLuint \<Rightarrow> gl_context \<Rightarrow> gl_context" where
  "glBindRenderbuffer target renderbuffer s =
     record_call (Call_glBindRenderbuffer target renderbuffer)
       (if target = GL_RENDERBUFFER then s\<lparr>renderbuffer_binding := renderbuffer\<rparr> else s)"

definition glViewport :: "GLint \<Rightarrow> GLint \<Rightarrow> GLint \<Rightarrow> GLint \<Rightarrow> gl_context \<Rightarrow> gl_context" where
  "glViewport x y w h s = record_call (Call_glViewport x y w h) (s\<lparr>viewport := (x, y, w, h)\<rparr>)"

definition glClearColor :: "GLfloat \<Rightarrow> GLfloat \<Rightarrow> GLfloat \<Rightarrow> GLfloat \<Rightarrow> gl_context \<Rightarrow> gl_context" where
  "glClearColor r g b a s =
     record_call (Call_glClearColor r g b a) (s\<lparr>color_clear_value := (r, g, b, a)\<rparr>)"

definition glBlendFunc :: "GLenum \<Rightarrow> GLenum \<Rightarrow> gl_context \<Rightarrow> gl_context" where
  "glBlendFunc sfactor dfactor s =
     record_call (Call_glBlendFunc sfactor dfactor) (s\<lparr>blend_src := sfactor, blend_dst := dfactor\<rparr>)"

definition glBlendEquation :: "GLenum \<Rightarrow> gl_context \<Rightarrow> gl_context" where
  "glBlendEquation eq s = record_call (Call_glBlendEquation eq) (s\<lparr>blend_equation := eq\<rparr>)"

definition glCullFace :: "GLenum \<Rightarrow> gl_context \<Rightarrow> gl_context" where
  "glCullFace m s = record_call (Call_glCullFace m) (s\<lparr>cull_face_mode := m\<rparr>)"

definition glFrontFace :: "GLenum \<Rightarrow> gl_context \<Rightarrow> gl_context" where
  "glFrontFace orient s = record_call (Call_glFrontFace orient) (s\<lparr>front_face := orient\<rparr>)"

text \<open>A texture parameter is set on the texture object bound to the target.\<close>

definition glTexParameteri :: "GLenum \<Rightarrow> GLenum \<Rightarrow> GLint \<Rightarrow> gl_context \<Rightarrow> gl_context" where
  "glTexParameteri target pname param s =
     record_call (Call_glTexParameteri target pname param)
       (s\<lparr>tex_parameter :=
            (tex_parameter s)(texture_binding s target :=
               (tex_parameter s (texture_binding s target))(pname := param))\<rparr>)"

text \<open>
  \<^verbatim>\<open>glUniform*\<close> writes to the uniform of the program in use, at the location given; the
  location -1 is ignored without an error.
\<close>

definition set_uniform :: "GLint \<Rightarrow> GLfloat list \<Rightarrow> gl_context \<Rightarrow> gl_context" where
  "set_uniform location v s =
     (if location = - 1 then s
      else s\<lparr>uniform_value :=
                (uniform_value s)(current_program s :=
                   (uniform_value s (current_program s))(location := v))\<rparr>)"

text \<open>
  \<^verbatim>\<open>glUniformMatrix4fv\<close> with the count 1 reads 16 floats from the array; the macros pass
  \<^verbatim>\<open>GL_FALSE\<close> for the transpose flag, so the floats are stored in the order given.
\<close>

definition glUniformMatrix4fv ::
  "GLint \<Rightarrow> GLint \<Rightarrow> GLboolean \<Rightarrow> GLfloat list \<Rightarrow> gl_context \<Rightarrow> gl_context" where
  "glUniformMatrix4fv location count transposed m s =
     record_call (Call_glUniformMatrix4fv location count transposed m)
       (set_uniform location (take 16 m) s)"

definition glUniform1f :: "GLint \<Rightarrow> GLfloat \<Rightarrow> gl_context \<Rightarrow> gl_context" where
  "glUniform1f location v s = record_call (Call_glUniform1f location v) (set_uniform location [v] s)"

section \<open>The macros of scope_gl.h\<close>

text \<open>
  What the expansion of a macro takes from where it is expanded, besides the macro's
  arguments. The macros declare their locals without an initialiser and pass their
  address to a query; where the query writes nothing, or less than the local holds, the
  local keeps the indeterminate content of its memory. \<^verbatim>\<open>_restore_glBindBuffer\<close> names
  the identifiers \<^verbatim>\<open>vbo\<close> and \<^verbatim>\<open>UQ(old_vbo)\<close>, and \<^verbatim>\<open>_unset_glFrontFace\<close> the function
  \<^verbatim>\<open>glFrontface\<close>, which neither the header nor OpenGL declares: they resolve, if at all,
  in the caller's code.
\<close>

record scope_env =
  indeterminate_int :: GLint
  indeterminate_float :: GLfloat
  indeterminate_floats :: "GLfloat list"
  caller_vbo :: GLuint
  caller_old_vbo :: GLuint
  caller_glFrontface :: "GLenum \<Rightarrow> gl_context \<Rightarrow> gl_context"

text \<open>
  A query writes the values it returns through the pointer it is given: to a scalar local
  the first value, to an array its leading elements. Nothing is written when the query
  returned nothing.
\<close>

definition written_to :: "'a \<Rightarrow> 'a list \<Rightarrow> 'a" where
  "written_to old vs = (case vs of [] \<Rightarrow> old | v # _ \<Rightarrow> v)"

definition written_array :: "'a list \<Rightarrow> 'a list \<Rightarrow> 'a list" where
  "written_array old vs = vs @ drop (length vs) old"

text \<open>
  \<^verbatim>\<open>glGetBooleanv(enumval, (GLboolean*) &UQ(old_flag))\<close> writes one byte into the four of
  the \<^verbatim>\<open>GLint\<close>: its low byte on a little-endian machine. The other three bytes keep their
  content.
\<close>

definition written_boolean :: "GLint \<Rightarrow> GLboolean \<Rightarrow> GLint" where
  "written_boolean old b = (old AND 0xFFFFFF00) OR ucast b"

text \<open>
  \<^verbatim>\<open>static inline GLuint _scope_gl_map_texture_target_to_binding(GLuint target)\<close>: the
  \<^verbatim>\<open>switch\<close>, case by case.
\<close>

definition scope_gl_map_texture_target_to_binding :: "GLuint \<Rightarrow> GLuint" where
  "scope_gl_map_texture_target_to_binding target =
     (if target = GL_TEXTURE_1D then GL_TEXTURE_BINDING_1D
      else if target = GL_TEXTURE_2D then GL_TEXTURE_BINDING_2D
      else if target = GL_TEXTURE_3D then GL_TEXTURE_BINDING_3D
      else if target = GL_TEXTURE_1D_ARRAY then GL_TEXTURE_BINDING_1D_ARRAY
      else if target = GL_TEXTURE_2D_ARRAY then GL_TEXTURE_BINDING_2D_ARRAY
      else if target = GL_TEXTURE_RECTANGLE then GL_TEXTURE_BINDING_RECTANGLE
      else if target = GL_TEXTURE_CUBE_MAP then GL_TEXTURE_BINDING_CUBE_MAP
      else if target = GL_TEXTURE_CUBE_MAP_ARRAY then GL_TEXTURE_BINDING_CUBE_MAP_ARRAY
      else if target = GL_TEXTURE_BUFFER then GL_TEXTURE_BINDING_BUFFER
      else if target = GL_TEXTURE_2D_MULTISAMPLE then GL_TEXTURE_BINDING_2D_MULTISAMPLE
      else if target = GL_TEXTURE_2D_MULTISAMPLE_ARRAY then GL_TEXTURE_BINDING_2D_MULTISAMPLE_ARRAY
      else 0)"

subsection \<open>The expansions with \<^verbatim>\<open>SCOPE_GL_RESTORE_STATE\<close>\<close>

text \<open>
  Each definition is the \<^verbatim>\<open>for\<close> header the macro expands to: the init clause with its comma
  expression from left to right, the condition, the increment clause. The macro
  arguments are taken as values, the same at entry and on exit; an invocation whose body
  changes what its argument expressions evaluate to is \<open>scope_gl_at\<close> below. An argument
  expression with a side effect is outside the model.
\<close>

definition restore_glUseProgram :: "scope_env \<Rightarrow> GLuint \<Rightarrow> (GLint \<times> GLint, gl_context) for_header" where
  "restore_glUseProgram env id' =
     For (\<lambda>s. case glGetIntegerv GL_CURRENT_PROGRAM s of
                 (r, s) \<Rightarrow> ((written_to (indeterminate_int env) r, 0), glUseProgram id' s))
         (\<lambda>(prog, i). i = 0)
         (\<lambda>(prog, i) s. ((prog, i + 1), glUseProgram prog s))"

definition restore_glBindVertexArray :: "scope_env \<Rightarrow> GLuint \<Rightarrow> (GLint \<times> GLint, gl_context) for_header" where
  "restore_glBindVertexArray env vao =
     For (\<lambda>s. case glGetIntegerv GL_VERTEX_ARRAY_BINDING s of
                 (r, s) \<Rightarrow> ((written_to (indeterminate_int env) r, 0), glBindVertexArray vao s))
         (\<lambda>(old_vao, i). i = 0)
         (\<lambda>(old_vao, i) s. ((old_vao, i + 1), glBindVertexArray old_vao s))"

definition restore_glBindTexture ::
  "scope_env \<Rightarrow> GLenum \<Rightarrow> GLuint \<Rightarrow> (GLint \<times> GLint, gl_context) for_header" where
  "restore_glBindTexture env target texture =
     For (\<lambda>s. case glGetIntegerv (scope_gl_map_texture_target_to_binding target) s of
                 (r, s) \<Rightarrow> ((written_to (indeterminate_int env) r, 0), glBindTexture target texture s))
         (\<lambda>(old_tex, i). i = 0)
         (\<lambda>(old_tex, i) s. ((old_tex, i + 1), glBindTexture target old_tex s))"

definition restore_glBindTexture2D :: "scope_env \<Rightarrow> GLuint \<Rightarrow> (GLint \<times> GLint, gl_context) for_header" where
  "restore_glBindTexture2D env tex_id =
     For (\<lambda>s. case glGetIntegerv GL_TEXTURE_BINDING_2D s of
                 (r, s) \<Rightarrow> ((written_to (indeterminate_int env) r, 0), glBindTexture GL_TEXTURE_2D tex_id s))
         (\<lambda>(old_tex, i). i = 0)
         (\<lambda>(old_tex, i) s. ((old_tex, i + 1), glBindTexture GL_TEXTURE_2D old_tex s))"

text \<open>
  \<^verbatim>\<open>_restore_glBindBuffer(target,buffer)\<close> as it is written: it queries \<^verbatim>\<open>GL_BUFFER_BINDING\<close>
  into \<^verbatim>\<open>UQ(old_buf)\<close>, binds \<^verbatim>\<open>vbo\<close> and on exit binds \<^verbatim>\<open>UQ(old_vbo)\<close>; its argument
  \<^verbatim>\<open>buffer\<close> and its local \<^verbatim>\<open>UQ(old_buf)\<close> are not used.
\<close>

definition restore_glBindBuffer ::
  "scope_env \<Rightarrow> GLenum \<Rightarrow> GLuint \<Rightarrow> (GLint \<times> GLint, gl_context) for_header" where
  "restore_glBindBuffer env target buffer =
     For (\<lambda>s. case glGetIntegerv GL_BUFFER_BINDING s of
                 (r, s) \<Rightarrow> ((written_to (indeterminate_int env) r, 0), glBindBuffer target (caller_vbo env) s))
         (\<lambda>(old_buf, i). i = 0)
         (\<lambda>(old_buf, i) s. ((old_buf, i + 1), glBindBuffer target (caller_old_vbo env) s))"

definition restore_glBindArrayBuffer :: "scope_env \<Rightarrow> GLuint \<Rightarrow> (GLint \<times> GLint, gl_context) for_header" where
  "restore_glBindArrayBuffer env vbo =
     For (\<lambda>s. case glGetIntegerv GL_ARRAY_BUFFER_BINDING s of
                 (r, s) \<Rightarrow> ((written_to (indeterminate_int env) r, 0), glBindBuffer GL_ARRAY_BUFFER vbo s))
         (\<lambda>(old_vbo, i). i = 0)
         (\<lambda>(old_vbo, i) s. ((old_vbo, i + 1), glBindBuffer GL_ARRAY_BUFFER old_vbo s))"

definition restore_glEnable :: "scope_env \<Rightarrow> GLenum \<Rightarrow> (GLint \<times> GLint, gl_context) for_header" where
  "restore_glEnable env enumval =
     For (\<lambda>s. case glGetBooleanv enumval s of
                 (b, s) \<Rightarrow> ((written_boolean (indeterminate_int env) b, 0), glEnable enumval s))
         (\<lambda>(old_flag, i). i = 0)
         (\<lambda>(old_flag, i) s.
            ((old_flag, i + 1), if old_flag \<noteq> 0 then glEnable enumval s else glDisable enumval s))"

definition restore_glDisable :: "scope_env \<Rightarrow> GLenum \<Rightarrow> (GLint \<times> GLint, gl_context) for_header" where
  "restore_glDisable env enumval =
     For (\<lambda>s. case glGetBooleanv enumval s of
                 (b, s) \<Rightarrow> ((written_boolean (indeterminate_int env) b, 0), glDisable enumval s))
         (\<lambda>(old_flag, i). i = 0)
         (\<lambda>(old_flag, i) s.
            ((old_flag, i + 1), if old_flag \<noteq> 0 then glEnable enumval s else glDisable enumval s))"

definition restore_glBindFramebuffer ::
  "scope_env \<Rightarrow> GLenum \<Rightarrow> GLuint \<Rightarrow> (GLint \<times> GLint, gl_context) for_header" where
  "restore_glBindFramebuffer env target fbo =
     For (\<lambda>s. case glGetIntegerv target s of
                 (r, s) \<Rightarrow> ((written_to (indeterminate_int env) r, 0), glBindFramebuffer target fbo s))
         (\<lambda>(old_fbo, i). i = 0)
         (\<lambda>(old_fbo, i) s. ((old_fbo, i + 1), glBindFramebuffer target old_fbo s))"

definition restore_glBindFBO :: "scope_env \<Rightarrow> GLuint \<Rightarrow> (GLint \<times> GLint, gl_context) for_header" where
  "restore_glBindFBO env fbo =
     For (\<lambda>s. case glGetIntegerv GL_FRAMEBUFFER_BINDING s of
                 (r, s) \<Rightarrow> ((written_to (indeterminate_int env) r, 0), glBindFramebuffer GL_FRAMEBUFFER fbo s))
         (\<lambda>(old_fbo, i). i = 0)
         (\<lambda>(old_fbo, i) s. ((old_fbo, i + 1), glBindFramebuffer GL_FRAMEBUFFER old_fbo s))"

definition restore_glFramebufferTexture ::
  "GLenum \<Rightarrow> GLenum \<Rightarrow> GLenum \<Rightarrow> GLuint \<Rightarrow> GLint \<Rightarrow> (32 word, gl_context) for_header" where
  "restore_glFramebufferTexture target point textarget texture level =
     scope_begin_end_var (glFramebufferTexture2D target point textarget texture level)
                         (glFramebufferTexture2D target point textarget 0 0)"

definition restore_glBindRenderbuffer :: "GLenum \<Rightarrow> GLuint \<Rightarrow> (32 word, gl_context) for_header" where
  "restore_glBindRenderbuffer target renderbuffer =
     scope_begin_end_var (glBindRenderbuffer target renderbuffer) (glBindRenderbuffer target 0)"

text \<open>The argument \<^verbatim>\<open>fbo\<close> of the two framebuffer-renderbuffer macros is not used.\<close>

definition restore_glFramebufferRenderbuffer ::
  "GLuint \<Rightarrow> GLenum \<Rightarrow> GLuint \<Rightarrow> (32 word, gl_context) for_header" where
  "restore_glFramebufferRenderbuffer fbo point renderbuffer =
     scope_begin_end_var (glFramebufferRenderbuffer GL_FRAMEBUFFER point GL_RENDERBUFFER renderbuffer)
                         (glFramebufferRenderbuffer GL_FRAMEBUFFER point GL_RENDERBUFFER 0)"

definition restore_glViewport ::
  "scope_env \<Rightarrow> GLint \<Rightarrow> GLint \<Rightarrow> GLint \<Rightarrow> GLint \<Rightarrow> (GLint list \<times> GLint, gl_context) for_header" where
  "restore_glViewport env x y w h =
     For (\<lambda>s. case glGetIntegerv GL_VIEWPORT s of
                 (r, s) \<Rightarrow> ((written_array (replicate 4 (indeterminate_int env)) r, 0), glViewport x y w h s))
         (\<lambda>(view, i). i = 0)
         (\<lambda>(view, i) s. ((view, i + 1), glViewport (view ! 0) (view ! 1) (view ! 2) (view ! 3) s))"

text \<open>The counter \<^verbatim>\<open>UQ(i)\<close> of \<^verbatim>\<open>_restore_glClearColor\<close> is a \<^verbatim>\<open>GLfloat\<close>, as the array is.\<close>

definition restore_glClearColor ::
  "scope_env \<Rightarrow> GLfloat \<Rightarrow> GLfloat \<Rightarrow> GLfloat \<Rightarrow> GLfloat \<Rightarrow> (GLfloat list \<times> GLfloat, gl_context) for_header" where
  "restore_glClearColor env r g b a =
     For (\<lambda>s. case glGetFloatv GL_COLOR_CLEAR_VALUE s of
                 (q, s) \<Rightarrow> ((written_array (replicate 4 (indeterminate_float env)) q, 0), glClearColor r g b a s))
         (\<lambda>(clear, i). i = 0)
         (\<lambda>(clear, i) s. ((clear, i + 1), glClearColor (clear ! 0) (clear ! 1) (clear ! 2) (clear ! 3) s))"

definition restore_glBlendFunc ::
  "scope_env \<Rightarrow> GLenum \<Rightarrow> GLenum \<Rightarrow> (GLint \<times> GLint \<times> GLint, gl_context) for_header" where
  "restore_glBlendFunc env src dst =
     For (\<lambda>s. case glGetIntegerv GL_BLEND_SRC s of
                 (r1, s) \<Rightarrow>
                   (case glGetIntegerv GL_BLEND_DST s of
                      (r2, s) \<Rightarrow>
                        ((written_to (indeterminate_int env) r1, written_to (indeterminate_int env) r2, 0),
                         glBlendFunc src dst s)))
         (\<lambda>(s, d, i). i = 0)
         (\<lambda>(s, d, i) t. ((s, d, i + 1), glBlendFunc s d t))"

definition restore_glBlendEquation :: "scope_env \<Rightarrow> GLenum \<Rightarrow> (GLint \<times> GLint, gl_context) for_header" where
  "restore_glBlendEquation env eq =
     For (\<lambda>s. case glGetIntegerv GL_BLEND_EQUATION s of
                 (r, s) \<Rightarrow> ((written_to (indeterminate_int env) r, 0), glBlendEquation eq s))
         (\<lambda>(e, i). i = 0)
         (\<lambda>(e, i) s. ((e, i + 1), glBlendEquation e s))"

definition restore_glCullFace :: "scope_env \<Rightarrow> GLenum \<Rightarrow> (GLint \<times> GLint, gl_context) for_header" where
  "restore_glCullFace env mode =
     For (\<lambda>s. case glGetIntegerv GL_CULL_FACE_MODE s of
                 (r, s) \<Rightarrow> ((written_to (indeterminate_int env) r, 0), glCullFace mode s))
         (\<lambda>(m, i). i = 0)
         (\<lambda>(m, i) s. ((m, i + 1), glCullFace m s))"

definition restore_glFrontFace :: "scope_env \<Rightarrow> GLenum \<Rightarrow> (GLint \<times> GLint, gl_context) for_header" where
  "restore_glFrontFace env orient =
     For (\<lambda>s. case glGetIntegerv GL_FRONT_FACE s of
                 (r, s) \<Rightarrow> ((written_to (indeterminate_int env) r, 0), glFrontFace orient s))
         (\<lambda>(fo, i). i = 0)
         (\<lambda>(fo, i) s. ((fo, i + 1), glFrontFace fo s))"

definition restore_glBindSSBO :: "scope_env \<Rightarrow> GLuint \<Rightarrow> GLuint \<Rightarrow> (GLint \<times> GLint, gl_context) for_header" where
  "restore_glBindSSBO env ssbo binding =
     For (\<lambda>s. case glGetIntegerv GL_SHADER_STORAGE_BUFFER_BINDING s of
                 (r, s) \<Rightarrow>
                   ((written_to (indeterminate_int env) r, 0),
                    glBindBufferBase GL_SHADER_STORAGE_BUFFER binding ssbo
                      (glBindBuffer GL_SHADER_STORAGE_BUFFER ssbo s)))
         (\<lambda>(old_ssbo, i). i = 0)
         (\<lambda>(old_ssbo, i) s.
            ((old_ssbo, i + 1),
             glBindBuffer GL_SHADER_STORAGE_BUFFER old_ssbo
               (glBindBufferBase GL_SHADER_STORAGE_BUFFER binding old_ssbo s)))"

text \<open>
  \<^verbatim>\<open>_restore_glTex2DParameter(ext,param,val)\<close> pastes \<^verbatim>\<open>ext\<close> into the names of the entry
  points. It is modelled for \<^verbatim>\<open>ext = i\<close>, where \<^verbatim>\<open>typeof(val)\<close> is \<^verbatim>\<open>GLint\<close> and the entry
  points are \<^verbatim>\<open>glGetTexParameteriv\<close> and \<^verbatim>\<open>glTexParameteri\<close>.
\<close>

definition restore_glTex2DParameter :: "scope_env \<Rightarrow> GLenum \<Rightarrow> GLint \<Rightarrow> (GLint \<times> GLint, gl_context) for_header" where
  "restore_glTex2DParameter env param val =
     For (\<lambda>s. case glGetTexParameteriv GL_TEXTURE_2D param s of
                 (r, s) \<Rightarrow> ((written_to (indeterminate_int env) r, 0), glTexParameteri GL_TEXTURE_2D param val s))
         (\<lambda>(t2d, i). i = 0)
         (\<lambda>(t2d, i) s. ((t2d, i + 1), glTexParameteri GL_TEXTURE_2D param t2d s))"

subsection \<open>The expansions without \<^verbatim>\<open>SCOPE_GL_RESTORE_STATE\<close>\<close>

definition unset_glUseProgram :: "GLuint \<Rightarrow> (32 word, gl_context) for_header" where
  "unset_glUseProgram id' = scope_begin_end_var (glUseProgram id') (glUseProgram 0)"

definition unset_glBindVertexArray :: "GLuint \<Rightarrow> (32 word, gl_context) for_header" where
  "unset_glBindVertexArray vao = scope_begin_end_var (glBindVertexArray vao) (glBindVertexArray 0)"

definition unset_glBindTexture :: "GLenum \<Rightarrow> GLuint \<Rightarrow> (32 word, gl_context) for_header" where
  "unset_glBindTexture target texture =
     scope_begin_end_var (glBindTexture target texture) (glBindTexture target 0)"

definition unset_glBindTexture2D :: "GLuint \<Rightarrow> (32 word, gl_context) for_header" where
  "unset_glBindTexture2D tex_id =
     scope_begin_end_var (glBindTexture GL_TEXTURE_2D tex_id) (glBindTexture GL_TEXTURE_2D 0)"

definition unset_glBindBuffer :: "GLenum \<Rightarrow> GLuint \<Rightarrow> (32 word, gl_context) for_header" where
  "unset_glBindBuffer target buffer =
     scope_begin_end_var (glBindBuffer target buffer) (glBindBuffer target 0)"

definition unset_glBindArrayBuffer :: "GLuint \<Rightarrow> (32 word, gl_context) for_header" where
  "unset_glBindArrayBuffer vbo =
     scope_begin_end_var (glBindBuffer GL_ARRAY_BUFFER vbo) (glBindBuffer GL_ARRAY_BUFFER 0)"

definition unset_glEnable :: "GLenum \<Rightarrow> (32 word, gl_context) for_header" where
  "unset_glEnable enumval = scope_begin_end_var (glEnable enumval) (glDisable enumval)"

definition unset_glDisable :: "GLenum \<Rightarrow> (32 word, gl_context) for_header" where
  "unset_glDisable enumval = scope_begin_end_var (glDisable enumval) (glEnable enumval)"

definition unset_glBindFramebuffer :: "GLenum \<Rightarrow> GLuint \<Rightarrow> (32 word, gl_context) for_header" where
  "unset_glBindFramebuffer target fbo =
     scope_begin_end_var (glBindFramebuffer target fbo) (glBindFramebuffer target 0)"

definition unset_glBindFBO :: "GLuint \<Rightarrow> (32 word, gl_context) for_header" where
  "unset_glBindFBO fbo =
     scope_begin_end_var (glBindFramebuffer GL_FRAMEBUFFER fbo) (glBindFramebuffer GL_FRAMEBUFFER 0)"

definition unset_glFramebufferTexture ::
  "GLenum \<Rightarrow> GLenum \<Rightarrow> GLenum \<Rightarrow> GLuint \<Rightarrow> GLint \<Rightarrow> (32 word, gl_context) for_header" where
  "unset_glFramebufferTexture target point textarget texture level =
     scope_begin_end_var (glFramebufferTexture2D target point textarget texture level)
                         (glFramebufferTexture2D target point textarget 0 0)"

definition unset_glBindRenderbuffer :: "GLenum \<Rightarrow> GLuint \<Rightarrow> (32 word, gl_context) for_header" where
  "unset_glBindRenderbuffer target renderbuffer =
     scope_begin_end_var (glBindRenderbuffer target renderbuffer) (glBindRenderbuffer target 0)"

definition unset_glFramebufferRenderbuffer ::
  "GLuint \<Rightarrow> GLenum \<Rightarrow> GLuint \<Rightarrow> (32 word, gl_context) for_header" where
  "unset_glFramebufferRenderbuffer fbo point renderbuffer =
     scope_begin_end_var (glFramebufferRenderbuffer GL_FRAMEBUFFER point GL_RENDERBUFFER renderbuffer)
                         (glFramebufferRenderbuffer GL_FRAMEBUFFER point GL_RENDERBUFFER 0)"

definition unset_glViewport :: "GLint \<Rightarrow> GLint \<Rightarrow> GLint \<Rightarrow> GLint \<Rightarrow> (32 word, gl_context) for_header" where
  "unset_glViewport x y w h = scope_begin_end_var (glViewport x y w h) (glViewport 0 0 0 0)"

definition unset_glClearColor ::
  "GLfloat \<Rightarrow> GLfloat \<Rightarrow> GLfloat \<Rightarrow> GLfloat \<Rightarrow> (32 word, gl_context) for_header" where
  "unset_glClearColor r g b a = scope_begin_end_var (glClearColor r g b a) (glClearColor 0 0 0 0)"

definition unset_glBlendFunc :: "GLenum \<Rightarrow> GLenum \<Rightarrow> (32 word, gl_context) for_header" where
  "unset_glBlendFunc src dst = scope_begin_end_var (glBlendFunc src dst) (glBlendFunc 0 0)"

definition unset_glBlendEquation :: "GLenum \<Rightarrow> (32 word, gl_context) for_header" where
  "unset_glBlendEquation eq = scope_begin_end_var (glBlendEquation eq) (glBlendEquation 0)"

definition unset_glCullFace :: "GLenum \<Rightarrow> (32 word, gl_context) for_header" where
  "unset_glCullFace mode = scope_begin_end_var (glCullFace mode) (glCullFace 0)"

text \<open>
  \<^verbatim>\<open>#define _unset_glFrontFace(orient) scope_begin_end_var(glFrontface(orient), glFrontFace(0), glfront)\<close>:
  the enter action calls \<^verbatim>\<open>glFrontface\<close>, whatever the caller's code makes of that name.
\<close>

definition unset_glFrontFace :: "scope_env \<Rightarrow> GLenum \<Rightarrow> (32 word, gl_context) for_header" where
  "unset_glFrontFace env orient = scope_begin_end_var (caller_glFrontface env orient) (glFrontFace 0)"

definition unset_glBindSSBO :: "GLuint \<Rightarrow> GLuint \<Rightarrow> (32 word, gl_context) for_header" where
  "unset_glBindSSBO ssbo binding =
     scope_begin_end_var
       (\<lambda>s. glBindBufferBase GL_SHADER_STORAGE_BUFFER binding ssbo
               (glBindBuffer GL_SHADER_STORAGE_BUFFER ssbo s))
       (\<lambda>s. glBindBuffer GL_SHADER_STORAGE_BUFFER 0
               (glBindBufferBase GL_SHADER_STORAGE_BUFFER binding 0 s))"

definition unset_glTex2DParameter :: "GLenum \<Rightarrow> GLint \<Rightarrow> (32 word, gl_context) for_header" where
  "unset_glTex2DParameter param val =
     scope_begin_end_var (glTexParameteri GL_TEXTURE_2D param val) (glTexParameteri GL_TEXTURE_2D param 0)"

subsection \<open>The uniform scopes\<close>

text \<open>
  \<^verbatim>\<open>scope_glUniformMatrix4fv(matrix,name)\<close> and \<^verbatim>\<open>scope_glUniformfv(val,name)\<close> expand to two
  \<^verbatim>\<open>for\<close> headers, one behind the other, with or without \<^verbatim>\<open>SCOPE_GL_RESTORE_STATE\<close>: the
  outer loop reads the program in use into \<^verbatim>\<open>UQ(prog)\<close>, and the inner loop, which is the
  body of the outer one, reads that local. The call that is an argument of another call
  is made first.
\<close>

definition uniform_outer :: "scope_env \<Rightarrow> (GLint \<times> GLint, gl_context) for_header" where
  "uniform_outer env =
     For (\<lambda>s. case glGetIntegerv GL_CURRENT_PROGRAM s of
                 (r, s) \<Rightarrow> ((written_to (indeterminate_int env) r, 0), s))
         (\<lambda>(prog, j). j = 0)
         (\<lambda>(prog, j) s. ((prog, j + 1), s))"

definition uniformMatrix4fv_inner ::
  "scope_env \<Rightarrow> GLfloat list \<Rightarrow> string \<Rightarrow> GLint \<Rightarrow> (GLfloat list \<times> GLfloat, gl_context) for_header" where
  "uniformMatrix4fv_inner env matrix name prog =
     For (\<lambda>s. case glGetUniformLocation prog name s of
                 (loc, s) \<Rightarrow>
                   (case glGetUniformfv prog loc s of
                      (r, s) \<Rightarrow>
                        (case glGetUniformLocation prog name s of
                           (loc', s) \<Rightarrow>
                             ((written_array (indeterminate_floats env) r, 0),
                              glUniformMatrix4fv loc' 1 GL_FALSE matrix s))))
         (\<lambda>(mat, i). i = 0)
         (\<lambda>(mat, i) s.
            case glGetUniformLocation prog name s of
              (loc, s) \<Rightarrow> ((mat, i + 1), glUniformMatrix4fv loc 1 GL_FALSE mat s))"

definition scope_glUniformMatrix4fv ::
  "scope_env \<Rightarrow> GLfloat list \<Rightarrow> string \<Rightarrow> gl_context stmt \<Rightarrow> gl_context stmt" where
  "scope_glUniformMatrix4fv env matrix name body =
     c_for (uniform_outer env)
       (\<lambda>(prog, j). c_for (uniformMatrix4fv_inner env matrix name prog) (\<lambda>_. body))"

definition uniformfv_inner ::
  "scope_env \<Rightarrow> GLfloat \<Rightarrow> string \<Rightarrow> GLint \<Rightarrow> (GLfloat \<times> GLfloat, gl_context) for_header" where
  "uniformfv_inner env val name prog =
     For (\<lambda>s. case glGetUniformLocation prog name s of
                 (loc, s) \<Rightarrow>
                   (case glGetUniformfv prog loc s of
                      (r, s) \<Rightarrow>
                        (case glGetUniformLocation prog name s of
                           (loc', s) \<Rightarrow>
                             ((written_to (indeterminate_float env) r, 0), glUniform1f loc' val s))))
         (\<lambda>(old_val, i). i = 0)
         (\<lambda>(old_val, i) s.
            case glGetUniformLocation prog name s of
              (loc, s) \<Rightarrow> ((old_val, i + 1), glUniform1f loc old_val s))"

definition scope_glUniformfv ::
  "scope_env \<Rightarrow> GLfloat \<Rightarrow> string \<Rightarrow> gl_context stmt \<Rightarrow> gl_context stmt" where
  "scope_glUniformfv env val name body =
     c_for (uniform_outer env)
       (\<lambda>(prog, j). c_for (uniformfv_inner env val name prog) (\<lambda>_. body))"

subsection \<open>The public macros\<close>

text \<open>
  The statement \<^verbatim>\<open>header body\<close>: the body is the caller's statement behind the macro. The
  locals of the header have names made by \<^verbatim>\<open>UQ\<close>, and the body does not name them.
\<close>

definition scoped :: "('l, 's) for_header \<Rightarrow> 's stmt \<Rightarrow> 's stmt" where
  "scoped h body = c_for h (\<lambda>_. body)"

text \<open>
  \<^verbatim>\<open>#ifdef SCOPE_GL_RESTORE_STATE\<close> selects, for the whole translation unit, the expansion
  of every \<^verbatim>\<open>_scope_gl...\<close> macro.
\<close>

datatype scope_mode = RESTORE | RESET

text \<open>
  An invocation \<^verbatim>\<open>scope_gl...(arguments)\<close> of a public macro. \<^verbatim>\<open>scope_glFramebufferTex2D\<close> is
  left out: the header defines neither \<^verbatim>\<open>_restore_glFramebufferTex2D\<close> nor
  \<^verbatim>\<open>_unset_glFramebufferTex2D\<close>, so it has no expansion.
\<close>

datatype scope_call =
    UseProgram GLuint
  | BindVertexArray GLuint
  | BindTexture GLenum GLuint
  | BindBuffer GLenum GLuint
  | BindArrayBuffer GLuint
  | Enable GLenum
  | Disable GLenum
  | BindFramebuffer GLenum GLuint
  | FramebufferTexture GLenum GLenum GLenum GLuint GLint
  | BindRenderbuffer GLenum GLuint
  | FramebufferRenderbuffer GLuint GLenum GLuint
  | Viewport GLint GLint GLint GLint
  | ClearColor GLfloat GLfloat GLfloat GLfloat
  | BlendFunc GLenum GLenum
  | BlendEquation GLenum
  | CullFace GLenum
  | FrontFace GLenum
  | BindTexture2D GLuint
  | BindFBO GLuint
  | BindSSBO GLuint GLuint
  | Tex2DParameter GLenum GLint
  | UniformMatrix4fv "GLfloat list" string
  | Uniformfv GLfloat string

fun scope_gl :: "scope_mode \<Rightarrow> scope_env \<Rightarrow> scope_call \<Rightarrow> gl_context stmt \<Rightarrow> gl_context stmt" where
  "scope_gl RESTORE env (UseProgram id') = scoped (restore_glUseProgram env id')"
| "scope_gl RESTORE env (BindVertexArray vao) = scoped (restore_glBindVertexArray env vao)"
| "scope_gl RESTORE env (BindTexture target texture) = scoped (restore_glBindTexture env target texture)"
| "scope_gl RESTORE env (BindBuffer target buffer) = scoped (restore_glBindBuffer env target buffer)"
| "scope_gl RESTORE env (BindArrayBuffer vbo) = scoped (restore_glBindArrayBuffer env vbo)"
| "scope_gl RESTORE env (Enable enumval) = scoped (restore_glEnable env enumval)"
| "scope_gl RESTORE env (Disable enumval) = scoped (restore_glDisable env enumval)"
| "scope_gl RESTORE env (BindFramebuffer target fbo) = scoped (restore_glBindFramebuffer env target fbo)"
| "scope_gl RESTORE env (FramebufferTexture target point textarget texture level) =
     scoped (restore_glFramebufferTexture target point textarget texture level)"
| "scope_gl RESTORE env (BindRenderbuffer target renderbuffer) =
     scoped (restore_glBindRenderbuffer target renderbuffer)"
| "scope_gl RESTORE env (FramebufferRenderbuffer fbo point renderbuffer) =
     scoped (restore_glFramebufferRenderbuffer fbo point renderbuffer)"
| "scope_gl RESTORE env (Viewport x y w h) = scoped (restore_glViewport env x y w h)"
| "scope_gl RESTORE env (ClearColor r g b a) = scoped (restore_glClearColor env r g b a)"
| "scope_gl RESTORE env (BlendFunc src dst) = scoped (restore_glBlendFunc env src dst)"
| "scope_gl RESTORE env (BlendEquation eq) = scoped (restore_glBlendEquation env eq)"
| "scope_gl RESTORE env (CullFace mode) = scoped (restore_glCullFace env mode)"
| "scope_gl RESTORE env (FrontFace orient) = scoped (restore_glFrontFace env orient)"
| "scope_gl RESTORE env (BindTexture2D tex_id) = scoped (restore_glBindTexture2D env tex_id)"
| "scope_gl RESTORE env (BindFBO fbo) = scoped (restore_glBindFBO env fbo)"
| "scope_gl RESTORE env (BindSSBO ssbo binding) = scoped (restore_glBindSSBO env ssbo binding)"
| "scope_gl RESTORE env (Tex2DParameter param val) = scoped (restore_glTex2DParameter env param val)"
| "scope_gl RESET env (UseProgram id') = scoped (unset_glUseProgram id')"
| "scope_gl RESET env (BindVertexArray vao) = scoped (unset_glBindVertexArray vao)"
| "scope_gl RESET env (BindTexture target texture) = scoped (unset_glBindTexture target texture)"
| "scope_gl RESET env (BindBuffer target buffer) = scoped (unset_glBindBuffer target buffer)"
| "scope_gl RESET env (BindArrayBuffer vbo) = scoped (unset_glBindArrayBuffer vbo)"
| "scope_gl RESET env (Enable enumval) = scoped (unset_glEnable enumval)"
| "scope_gl RESET env (Disable enumval) = scoped (unset_glDisable enumval)"
| "scope_gl RESET env (BindFramebuffer target fbo) = scoped (unset_glBindFramebuffer target fbo)"
| "scope_gl RESET env (FramebufferTexture target point textarget texture level) =
     scoped (unset_glFramebufferTexture target point textarget texture level)"
| "scope_gl RESET env (BindRenderbuffer target renderbuffer) =
     scoped (unset_glBindRenderbuffer target renderbuffer)"
| "scope_gl RESET env (FramebufferRenderbuffer fbo point renderbuffer) =
     scoped (unset_glFramebufferRenderbuffer fbo point renderbuffer)"
| "scope_gl RESET env (Viewport x y w h) = scoped (unset_glViewport x y w h)"
| "scope_gl RESET env (ClearColor r g b a) = scoped (unset_glClearColor r g b a)"
| "scope_gl RESET env (BlendFunc src dst) = scoped (unset_glBlendFunc src dst)"
| "scope_gl RESET env (BlendEquation eq) = scoped (unset_glBlendEquation eq)"
| "scope_gl RESET env (CullFace mode) = scoped (unset_glCullFace mode)"
| "scope_gl RESET env (FrontFace orient) = scoped (unset_glFrontFace env orient)"
| "scope_gl RESET env (BindTexture2D tex_id) = scoped (unset_glBindTexture2D tex_id)"
| "scope_gl RESET env (BindFBO fbo) = scoped (unset_glBindFBO fbo)"
| "scope_gl RESET env (BindSSBO ssbo binding) = scoped (unset_glBindSSBO ssbo binding)"
| "scope_gl RESET env (Tex2DParameter param val) = scoped (unset_glTex2DParameter param val)"
| "scope_gl m env (UniformMatrix4fv matrix name) = scope_glUniformMatrix4fv env matrix name"
| "scope_gl m env (Uniformfv val name) = scope_glUniformfv env val name"

text \<open>
  Several macros in front of one block, \<^verbatim>\<open>scope_A scope_B ... { body }\<close>: each header's body
  is the \<^verbatim>\<open>for\<close> statement of the next macro, and the last one's body is the block.
\<close>

fun scopes :: "scope_mode \<Rightarrow> scope_env \<Rightarrow> scope_call list \<Rightarrow> gl_context stmt \<Rightarrow> gl_context stmt" where
  "scopes m env [] body = body"
| "scopes m env (sc # rest) body = scope_gl m env sc (scopes m env rest body)"

section \<open>Enter and exit actions\<close>

text \<open>
  The enter action of an invocation is what its init clauses do to the context; its exit
  action is what the increment clause of its (inner) loop does, with the locals as the
  init clauses set them in the entry state.
\<close>

definition actions :: "('l, 's) for_header \<Rightarrow> ('s \<Rightarrow> 's) \<times> ('s \<Rightarrow> 's \<Rightarrow> 's)" where
  "actions h = (header_enter h, header_exit h)"

definition uniform_prog :: "scope_env \<Rightarrow> gl_context \<Rightarrow> GLint" where
  "uniform_prog env s = fst (fst (for_init (uniform_outer env) s))"

definition nested_actions ::
  "scope_env \<Rightarrow> (GLint \<Rightarrow> ('l, gl_context) for_header) \<Rightarrow>
     (gl_context \<Rightarrow> gl_context) \<times> (gl_context \<Rightarrow> gl_context \<Rightarrow> gl_context)" where
  "nested_actions env inner =
     (\<lambda>s. header_enter (inner (uniform_prog env s)) (header_enter (uniform_outer env) s),
      \<lambda>s0. header_exit (inner (uniform_prog env s0)) (header_enter (uniform_outer env) s0))"

fun scope_actions ::
  "scope_mode \<Rightarrow> scope_env \<Rightarrow> scope_call \<Rightarrow>
     (gl_context \<Rightarrow> gl_context) \<times> (gl_context \<Rightarrow> gl_context \<Rightarrow> gl_context)" where
  "scope_actions RESTORE env (UseProgram id') = actions (restore_glUseProgram env id')"
| "scope_actions RESTORE env (BindVertexArray vao) = actions (restore_glBindVertexArray env vao)"
| "scope_actions RESTORE env (BindTexture target texture) = actions (restore_glBindTexture env target texture)"
| "scope_actions RESTORE env (BindBuffer target buffer) = actions (restore_glBindBuffer env target buffer)"
| "scope_actions RESTORE env (BindArrayBuffer vbo) = actions (restore_glBindArrayBuffer env vbo)"
| "scope_actions RESTORE env (Enable enumval) = actions (restore_glEnable env enumval)"
| "scope_actions RESTORE env (Disable enumval) = actions (restore_glDisable env enumval)"
| "scope_actions RESTORE env (BindFramebuffer target fbo) = actions (restore_glBindFramebuffer env target fbo)"
| "scope_actions RESTORE env (FramebufferTexture target point textarget texture level) =
     actions (restore_glFramebufferTexture target point textarget texture level)"
| "scope_actions RESTORE env (BindRenderbuffer target renderbuffer) =
     actions (restore_glBindRenderbuffer target renderbuffer)"
| "scope_actions RESTORE env (FramebufferRenderbuffer fbo point renderbuffer) =
     actions (restore_glFramebufferRenderbuffer fbo point renderbuffer)"
| "scope_actions RESTORE env (Viewport x y w h) = actions (restore_glViewport env x y w h)"
| "scope_actions RESTORE env (ClearColor r g b a) = actions (restore_glClearColor env r g b a)"
| "scope_actions RESTORE env (BlendFunc src dst) = actions (restore_glBlendFunc env src dst)"
| "scope_actions RESTORE env (BlendEquation eq) = actions (restore_glBlendEquation env eq)"
| "scope_actions RESTORE env (CullFace mode) = actions (restore_glCullFace env mode)"
| "scope_actions RESTORE env (FrontFace orient) = actions (restore_glFrontFace env orient)"
| "scope_actions RESTORE env (BindTexture2D tex_id) = actions (restore_glBindTexture2D env tex_id)"
| "scope_actions RESTORE env (BindFBO fbo) = actions (restore_glBindFBO env fbo)"
| "scope_actions RESTORE env (BindSSBO ssbo binding) = actions (restore_glBindSSBO env ssbo binding)"
| "scope_actions RESTORE env (Tex2DParameter param val) = actions (restore_glTex2DParameter env param val)"
| "scope_actions RESET env (UseProgram id') = actions (unset_glUseProgram id')"
| "scope_actions RESET env (BindVertexArray vao) = actions (unset_glBindVertexArray vao)"
| "scope_actions RESET env (BindTexture target texture) = actions (unset_glBindTexture target texture)"
| "scope_actions RESET env (BindBuffer target buffer) = actions (unset_glBindBuffer target buffer)"
| "scope_actions RESET env (BindArrayBuffer vbo) = actions (unset_glBindArrayBuffer vbo)"
| "scope_actions RESET env (Enable enumval) = actions (unset_glEnable enumval)"
| "scope_actions RESET env (Disable enumval) = actions (unset_glDisable enumval)"
| "scope_actions RESET env (BindFramebuffer target fbo) = actions (unset_glBindFramebuffer target fbo)"
| "scope_actions RESET env (FramebufferTexture target point textarget texture level) =
     actions (unset_glFramebufferTexture target point textarget texture level)"
| "scope_actions RESET env (BindRenderbuffer target renderbuffer) =
     actions (unset_glBindRenderbuffer target renderbuffer)"
| "scope_actions RESET env (FramebufferRenderbuffer fbo point renderbuffer) =
     actions (unset_glFramebufferRenderbuffer fbo point renderbuffer)"
| "scope_actions RESET env (Viewport x y w h) = actions (unset_glViewport x y w h)"
| "scope_actions RESET env (ClearColor r g b a) = actions (unset_glClearColor r g b a)"
| "scope_actions RESET env (BlendFunc src dst) = actions (unset_glBlendFunc src dst)"
| "scope_actions RESET env (BlendEquation eq) = actions (unset_glBlendEquation eq)"
| "scope_actions RESET env (CullFace mode) = actions (unset_glCullFace mode)"
| "scope_actions RESET env (FrontFace orient) = actions (unset_glFrontFace env orient)"
| "scope_actions RESET env (BindTexture2D tex_id) = actions (unset_glBindTexture2D tex_id)"
| "scope_actions RESET env (BindFBO fbo) = actions (unset_glBindFBO fbo)"
| "scope_actions RESET env (BindSSBO ssbo binding) = actions (unset_glBindSSBO ssbo binding)"
| "scope_actions RESET env (Tex2DParameter param val) = actions (unset_glTex2DParameter param val)"
| "scope_actions m env (UniformMatrix4fv matrix name) =
     nested_actions env (uniformMatrix4fv_inner env matrix name)"
| "scope_actions m env (Uniformfv val name) = nested_actions env (uniformfv_inner env val name)"

definition enter_action :: "scope_mode \<Rightarrow> scope_env \<Rightarrow> scope_call \<Rightarrow> gl_context \<Rightarrow> gl_context" where
  "enter_action m env sc = fst (scope_actions m env sc)"

definition exit_action ::
  "scope_mode \<Rightarrow> scope_env \<Rightarrow> scope_call \<Rightarrow> gl_context \<Rightarrow> gl_context \<Rightarrow> gl_context" where
  "exit_action m env sc = snd (scope_actions m env sc)"

text \<open>
  The scope frames of several macros in front of one block, in the order the scopes are
  entered: each invocation with the state it is entered in, from which the init clause
  reads the value it keeps.
\<close>

fun frames :: "scope_mode \<Rightarrow> scope_env \<Rightarrow> scope_call list \<Rightarrow> gl_context \<Rightarrow> (scope_call \<times> gl_context) list" where
  "frames m env [] s = []"
| "frames m env (sc # rest) s = (sc, s) # frames m env rest (enter_action m env sc s)"

text \<open>The state the block starts in: every enter action has run, in the order of the macros.\<close>

fun enter_all :: "scope_mode \<Rightarrow> scope_env \<Rightarrow> scope_call list \<Rightarrow> gl_context \<Rightarrow> gl_context" where
  "enter_all m env [] s = s"
| "enter_all m env (sc # rest) s = enter_all m env rest (enter_action m env sc s)"

text \<open>Running the exit actions of a list of frames, the first of the list first.\<close>

definition run_exits :: "scope_mode \<Rightarrow> scope_env \<Rightarrow> (scope_call \<times> gl_context) list \<Rightarrow> gl_context \<Rightarrow> gl_context" where
  "run_exits m env fs s' = foldl (\<lambda>t (sc, s0). exit_action m env sc s0 t) s' fs"

section \<open>Argument expressions\<close>

text \<open>
  The preprocessor puts the tokens of an argument wherever the parameter stands in the
  expansion. So the init clause evaluates the argument expressions when the scope is
  entered, and the increment clause evaluates them again when it runs; the body can
  change what they evaluate to. \<open>reevaluated h h'\<close> is the header of a macro whose
  argument expressions have at entry the values \<open>h\<close> is made with and on exit those \<open>h'\<close>
  is made with: the init clause and the condition of \<open>h\<close>, the increment clause of \<open>h'\<close>. An
  argument expression with a side effect of its own stays outside the model.
\<close>

definition reevaluated :: "('l, 's) for_header \<Rightarrow> ('l, 's) for_header \<Rightarrow> ('l, 's) for_header" where
  "reevaluated h h' = For (for_init h) (for_cond h) (for_incr h')"

definition scope_glUniformMatrix4fv_at ::
  "scope_env \<Rightarrow> GLfloat list \<Rightarrow> string \<Rightarrow> GLfloat list \<Rightarrow> string \<Rightarrow> gl_context stmt \<Rightarrow> gl_context stmt" where
  "scope_glUniformMatrix4fv_at env matrix name matrix2 name2 body =
     c_for (uniform_outer env)
       (\<lambda>(prog, j). c_for (reevaluated (uniformMatrix4fv_inner env matrix name prog)
                                      (uniformMatrix4fv_inner env matrix2 name2 prog)) (\<lambda>_. body))"

definition scope_glUniformfv_at ::
  "scope_env \<Rightarrow> GLfloat \<Rightarrow> string \<Rightarrow> GLfloat \<Rightarrow> string \<Rightarrow> gl_context stmt \<Rightarrow> gl_context stmt" where
  "scope_glUniformfv_at env val name val2 name2 body =
     c_for (uniform_outer env)
       (\<lambda>(prog, j). c_for (reevaluated (uniformfv_inner env val name prog)
                                      (uniformfv_inner env val2 name2 prog)) (\<lambda>_. body))"

text \<open>
  An invocation whose arguments have the values of \<open>sc\<close> at entry and the values of \<open>sc'\<close>,
  an invocation of the same macro, on exit. (Where \<open>sc'\<close> is of another macro, it gives no
  values for the arguments, and they are those of \<open>sc\<close>.)
\<close>

fun scope_gl_at ::
  "scope_mode \<Rightarrow> scope_env \<Rightarrow> scope_call \<Rightarrow> scope_call \<Rightarrow> gl_context stmt \<Rightarrow> gl_context stmt" where
  "scope_gl_at RESTORE env (UseProgram id') sc' =
     (case sc' of
        UseProgram id2 \<Rightarrow> scoped (reevaluated (restore_glUseProgram env id') (restore_glUseProgram env id2))
      | _ \<Rightarrow> scope_gl RESTORE env (UseProgram id'))"
| "scope_gl_at RESTORE env (BindVertexArray vao) sc' =
     (case sc' of
        BindVertexArray vao2 \<Rightarrow> scoped (reevaluated (restore_glBindVertexArray env vao) (restore_glBindVertexArray env vao2))
      | _ \<Rightarrow> scope_gl RESTORE env (BindVertexArray vao))"
| "scope_gl_at RESTORE env (BindTexture target texture) sc' =
     (case sc' of
        BindTexture target2 texture2 \<Rightarrow> scoped (reevaluated (restore_glBindTexture env target texture) (restore_glBindTexture env target2 texture2))
      | _ \<Rightarrow> scope_gl RESTORE env (BindTexture target texture))"
| "scope_gl_at RESTORE env (BindBuffer target buffer) sc' =
     (case sc' of
        BindBuffer target2 buffer2 \<Rightarrow> scoped (reevaluated (restore_glBindBuffer env target buffer) (restore_glBindBuffer env target2 buffer2))
      | _ \<Rightarrow> scope_gl RESTORE env (BindBuffer target buffer))"
| "scope_gl_at RESTORE env (BindArrayBuffer vbo) sc' =
     (case sc' of
        BindArrayBuffer vbo2 \<Rightarrow> scoped (reevaluated (restore_glBindArrayBuffer env vbo) (restore_glBindArrayBuffer env vbo2))
      | _ \<Rightarrow> scope_gl RESTORE env (BindArrayBuffer vbo))"
| "scope_gl_at RESTORE env (Enable enumval) sc' =
     (case sc' of
        Enable enumval2 \<Rightarrow> scoped (reevaluated (restore_glEnable env enumval) (restore_glEnable env enumval2))
      | _ \<Rightarrow> scope_gl RESTORE env (Enable enumval))"
| "scope_gl_at RESTORE env (Disable enumval) sc' =
     (case sc' of
        Disable enumval2 \<Rightarrow> scoped (reevaluated (restore_glDisable env enumval) (restore_glDisable env enumval2))
      | _ \<Rightarrow> scope_gl RESTORE env (Disable enumval))"
| "scope_gl_at RESTORE env (BindFramebuffer target fbo) sc' =
     (case sc' of
        BindFramebuffer target2 fbo2 \<Rightarrow> scoped (reevaluated (restore_glBindFramebuffer env target fbo) (restore_glBindFramebuffer env target2 fbo2))
      | _ \<Rightarrow> scope_gl RESTORE env (BindFramebuffer target fbo))"
| "scope_gl_at RESTORE env (FramebufferTexture target point textarget texture level) sc' =
     (case sc' of
        FramebufferTexture target2 point2 textarget2 texture2 level2 \<Rightarrow> scoped (reevaluated (restore_glFramebufferTexture target point textarget texture level) (restore_glFramebufferTexture target2 point2 textarget2 texture2 level2))
      | _ \<Rightarrow> scope_gl RESTORE env (FramebufferTexture target point textarget texture level))"
| "scope_gl_at RESTORE env (BindRenderbuffer target renderbuffer) sc' =
     (case sc' of
        BindRenderbuffer target2 renderbuffer2 \<Rightarrow> scoped (reevaluated (restore_glBindRenderbuffer target renderbuffer) (restore_glBindRenderbuffer target2 renderbuffer2))
      | _ \<Rightarrow> scope_gl RESTORE env (BindRenderbuffer target renderbuffer))"
| "scope_gl_at RESTORE env (FramebufferRenderbuffer fbo point renderbuffer) sc' =
     (case sc' of
        FramebufferRenderbuffer fbo2 point2 renderbuffer2 \<Rightarrow> scoped (reevaluated (restore_glFramebufferRenderbuffer fbo point renderbuffer) (restore_glFramebufferRenderbuffer fbo2 point2 renderbuffer2))
      | _ \<Rightarrow> scope_gl RESTORE env (FramebufferRenderbuffer fbo point renderbuffer))"
| "scope_gl_at RESTORE env (Viewport x y w h) sc' =
     (case sc' of
        Viewport x2 y2 w2 h2 \<Rightarrow> scoped (reevaluated (restore_glViewport env x y w h) (restore_glViewport env x2 y2 w2 h2))
      | _ \<Rightarrow> scope_gl RESTORE env (Viewport x y w h))"
| "scope_gl_at RESTORE env (ClearColor r g b a) sc' =
     (case sc' of
        ClearColor r2 g2 b2 a2 \<Rightarrow> scoped (reevaluated (restore_glClearColor env r g b a) (restore_glClearColor env r2 g2 b2 a2))
      | _ \<Rightarrow> scope_gl RESTORE env (ClearColor r g b a))"
| "scope_gl_at RESTORE env (BlendFunc src dst) sc' =
     (case sc' of
        BlendFunc src2 dst2 \<Rightarrow> scoped (reevaluated (restore_glBlendFunc env src dst) (restore_glBlendFunc env src2 dst2))
      | _ \<Rightarrow> scope_gl RESTORE env (BlendFunc src dst))"
| "scope_gl_at RESTORE env (BlendEquation eq) sc' =
     (case sc' of
        BlendEquation eq2 \<Rightarrow> scoped (reevaluated (restore_glBlendEquation env eq) (restore_glBlendEquation env eq2))
      | _ \<Rightarrow> scope_gl RESTORE env (BlendEquation eq))"
| "scope_gl_at RESTORE env (CullFace mode) sc' =
     (case sc' of
        CullFace mode2 \<Rightarrow> scoped (reevaluated (restore_glCullFace env mode) (restore_glCullFace env mode2))
      | _ \<Rightarrow> scope_gl RESTORE env (CullFace mode))"
| "scope_gl_at RESTORE env (FrontFace orient) sc' =
     (case sc' of
        FrontFace orient2 \<Rightarrow> scoped (reevaluated (restore_glFrontFace env orient) (restore_glFrontFace env orient2))
      | _ \<Rightarrow> scope_gl RESTORE env (FrontFace orient))"
| "scope_gl_at RESTORE env (BindTexture2D tex_id) sc' =
     (case sc' of
        BindTexture2D tex_id2 \<Rightarrow> scoped (reevaluated (restore_glBindTexture2D env tex_id) (restore_glBindTexture2D env tex_id2))
      | _ \<Rightarrow> scope_gl RESTORE env (BindTexture2D tex_id))"
| "scope_gl_at RESTORE env (BindFBO fbo) sc' =
     (case sc' of
        BindFBO fbo2 \<Rightarrow> scoped (reevaluated (restore_glBindFBO env fbo) (restore_glBindFBO env fbo2))
      | _ \<Rightarrow> scope_gl RESTORE env (BindFBO fbo))"
| "scope_gl_at RESTORE env (BindSSBO ssbo binding) sc' =
     (case sc' of
        BindSSBO ssbo2 binding2 \<Rightarrow> scoped (reevaluated (restore_glBindSSBO env ssbo binding) (restore_glBindSSBO env ssbo2 binding2))
      | _ \<Rightarrow> scope_gl RESTORE env (BindSSBO ssbo binding))"
| "scope_gl_at RESTORE env (Tex2DParameter param val) sc' =
     (case sc' of
        Tex2DParameter param2 val2 \<Rightarrow> scoped (reevaluated (restore_glTex2DParameter env param val) (restore_glTex2DParameter env param2 val2))
      | _ \<Rightarrow> scope_gl RESTORE env (Tex2DParameter param val))"
| "scope_gl_at RESET env (UseProgram id') sc' =
     (case sc' of
        UseProgram id2 \<Rightarrow> scoped (reevaluated (unset_glUseProgram id') (unset_glUseProgram id2))
      | _ \<Rightarrow> scope_gl RESET env (UseProgram id'))"
| "scope_gl_at RESET env (BindVertexArray vao) sc' =
     (case sc' of
        BindVertexArray vao2 \<Rightarrow> scoped (reevaluated (unset_glBindVertexArray vao) (unset_glBindVertexArray vao2))
      | _ \<Rightarrow> scope_gl RESET env (BindVertexArray vao))"
| "scope_gl_at RESET env (BindTexture target texture) sc' =
     (case sc' of
        BindTexture target2 texture2 \<Rightarrow> scoped (reevaluated (unset_glBindTexture target texture) (unset_glBindTexture target2 texture2))
      | _ \<Rightarrow> scope_gl RESET env (BindTexture target texture))"
| "scope_gl_at RESET env (BindBuffer target buffer) sc' =
     (case sc' of
        BindBuffer target2 buffer2 \<Rightarrow> scoped (reevaluated (unset_glBindBuffer target buffer) (unset_glBindBuffer target2 buffer2))
      | _ \<Rightarrow> scope_gl RESET env (BindBuffer target buffer))"
| "scope_gl_at RESET env (BindArrayBuffer vbo) sc' =
     (case sc' of
        BindArrayBuffer vbo2 \<Rightarrow> scoped (reevaluated (unset_glBindArrayBuffer vbo) (unset_glBindArrayBuffer vbo2))
      | _ \<Rightarrow> scope_gl RESET env (BindArrayBuffer vbo))"
| "scope_gl_at RESET env (Enable enumval) sc' =
     (case sc' of
        Enable enumval2 \<Rightarrow> scoped (reevaluated (unset_glEnable enumval) (unset_glEnable enumval2))
      | _ \<Rightarrow> scope_gl RESET env (Enable enumval))"
| "scope_gl_at RESET env (Disable enumval) sc' =
     (case sc' of
        Disable enumval2 \<Rightarrow> scoped (reevaluated (unset_glDisable enumval) (unset_glDisable enumval2))
      | _ \<Rightarrow> scope_gl RESET env (Disable enumval))"
| "scope_gl_at RESET env (BindFramebuffer target fbo) sc' =
     (case sc' of
        BindFramebuffer target2 fbo2 \<Rightarrow> scoped (reevaluated (unset_glBindFramebuffer target fbo) (unset_glBindFramebuffer target2 fbo2))
      | _ \<Rightarrow> scope_gl RESET env (BindFramebuffer target fbo))"
| "scope_gl_at RESET env (FramebufferTexture target point textarget texture level) sc' =
     (case sc' of
        FramebufferTexture target2 point2 textarget2 texture2 level2 \<Rightarrow> scoped (reevaluated (unset_glFramebufferTexture target point textarget texture level) (unset_glFramebufferTexture target2 point2 textarget2 texture2 level2))
      | _ \<Rightarrow> scope_gl RESET env (FramebufferTexture target point textarget texture level))"
| "scope_gl_at RESET env (BindRenderbuffer target renderbuffer) sc' =
     (case sc' of
        BindRenderbuffer target2 renderbuffer2 \<Rightarrow> scoped (reevaluated (unset_glBindRenderbuffer target renderbuffer) (unset_glBindRenderbuffer target2 renderbuffer2))
      | _ \<Rightarrow> scope_gl RESET env (BindRenderbuffer target renderbuffer))"
| "scope_gl_at RESET env (FramebufferRenderbuffer fbo point renderbuffer) sc' =
     (case sc' of
        FramebufferRenderbuffer fbo2 point2 renderbuffer2 \<Rightarrow> scoped (reevaluated (unset_glFramebufferRenderbuffer fbo point renderbuffer) (unset_glFramebufferRenderbuffer fbo2 point2 renderbuffer2))
      | _ \<Rightarrow> scope_gl RESET env (FramebufferRenderbuffer fbo point renderbuffer))"
| "scope_gl_at RESET env (Viewport x y w h) sc' =
     (case sc' of
        Viewport x2 y2 w2 h2 \<Rightarrow> scoped (reevaluated (unset_glViewport x y w h) (unset_glViewport x2 y2 w2 h2))
      | _ \<Rightarrow> scope_gl RESET env (Viewport x y w h))"
| "scope_gl_at RESET env (ClearColor r g b a) sc' =
     (case sc' of
        ClearColor r2 g2 b2 a2 \<Rightarrow> scoped (reevaluated (unset_glClearColor r g b a) (unset_glClearColor r2 g2 b2 a2))
      | _ \<Rightarrow> scope_gl RESET env (ClearColor r g b a))"
| "scope_gl_at RESET env (BlendFunc src dst) sc' =
     (case sc' of
        BlendFunc src2 dst2 \<Rightarrow> scoped (reevaluated (unset_glBlendFunc src dst) (unset_glBlendFunc src2 dst2))
      | _ \<Rightarrow> scope_gl RESET env (BlendFunc src dst))"
| "scope_gl_at RESET env (BlendEquation eq) sc' =
     (case sc' of
        BlendEquation eq2 \<Rightarrow> scoped (reevaluated (unset_glBlendEquation eq) (unset_glBlendEquation eq2))
      | _ \<Rightarrow> scope_gl RESET env (BlendEquation eq))"
| "scope_gl_at RESET env (CullFace mode) sc' =
     (case sc' of
        CullFace mode2 \<Rightarrow> scoped (reevaluated (unset_glCullFace mode) (unset_glCullFace mode2))
      | _ \<Rightarrow> scope_gl RESET env (CullFace mode))"
| "scope_gl_at RESET env (FrontFace orient) sc' =
     (case sc' of
        FrontFace orient2 \<Rightarrow> scoped (reevaluated (unset_glFrontFace env orient) (unset_glFrontFace env orient2))
      | _ \<Rightarrow> scope_gl RESET env (FrontFace orient))"
| "scope_gl_at RESET env (BindTexture2D tex_id) sc' =
     (case sc' of
        BindTexture2D tex_id2 \<Rightarrow> scoped (reevaluated (unset_glBindTexture2D tex_id) (unset_glBindTexture2D tex_id2))
      | _ \<Rightarrow> scope_gl RESET env (BindTexture2D tex_id))"
| "scope_gl_at RESET env (BindFBO fbo) sc' =
     (case sc' of
        BindFBO fbo2 \<Rightarrow> scoped (reevaluated (unset_glBindFBO fbo) (unset_glBindFBO fbo2))
      | _ \<Rightarrow> scope_gl RESET env (BindFBO fbo))"
| "scope_gl_at RESET env (BindSSBO ssbo binding) sc' =
     (case sc' of
        BindSSBO ssbo2 binding2 \<Rightarrow> scoped (reevaluated (unset_glBindSSBO ssbo binding) (unset_glBindSSBO ssbo2 binding2))
      | _ \<Rightarrow> scope_gl RESET env (BindSSBO ssbo binding))"
| "scope_gl_at RESET env (Tex2DParameter param val) sc' =
     (case sc' of
        Tex2DParameter param2 val2 \<Rightarrow> scoped (reevaluated (unset_glTex2DParameter param val) (unset_glTex2DParameter param2 val2))
      | _ \<Rightarrow> scope_gl RESET env (Tex2DParameter param val))"
| "scope_gl_at m env (UniformMatrix4fv matrix name) sc' =
     (case sc' of
        UniformMatrix4fv matrix2 name2 \<Rightarrow> scope_glUniformMatrix4fv_at env matrix name matrix2 name2
      | _ \<Rightarrow> scope_gl m env (UniformMatrix4fv matrix name))"
| "scope_gl_at m env (Uniformfv val name) sc' =
     (case sc' of
        Uniformfv val2 name2 \<Rightarrow> scope_glUniformfv_at env val name val2 name2
      | _ \<Rightarrow> scope_gl m env (Uniformfv val name))"

text \<open>
  The exit action of such an invocation: the state in which the scope leaves a body that
  falls through in the state \<open>s'\<close>, for the entry state \<open>s0\<close>.
\<close>

definition exit_action_at ::
  "scope_mode \<Rightarrow> scope_env \<Rightarrow> scope_call \<Rightarrow> scope_call \<Rightarrow> gl_context \<Rightarrow> gl_context \<Rightarrow> gl_context" where
  "exit_action_at m env sc sc' s0 s' =
     (case scope_gl_at m env sc sc' (\<lambda>t. Some (Normal, s')) s0 of
        None \<Rightarrow> s'
      | Some (c, t) \<Rightarrow> t)"

section \<open>Invocation sites\<close>

text \<open>The public macros of the header that have an expansion.\<close>

datatype macro =
    Scope_glUseProgram
  | Scope_glBindVertexArray
  | Scope_glBindTexture
  | Scope_glBindBuffer
  | Scope_glBindArrayBuffer
  | Scope_glEnable
  | Scope_glDisable
  | Scope_glBindFramebuffer
  | Scope_glFramebufferTexture
  | Scope_glBindRenderbuffer
  | Scope_glFramebufferRenderbuffer
  | Scope_glViewport
  | Scope_glClearColor
  | Scope_glBlendFunc
  | Scope_glBlendEquation
  | Scope_glCullFace
  | Scope_glFrontFace
  | Scope_glBindTexture2D
  | Scope_glBindFBO
  | Scope_glBindSSBO
  | Scope_glTex2DParameter
  | Scope_glUniformMatrix4fv
  | Scope_glUniformfv

fun macro_of :: "scope_call \<Rightarrow> macro" where
  "macro_of (UseProgram id') = Scope_glUseProgram"
| "macro_of (BindVertexArray vao) = Scope_glBindVertexArray"
| "macro_of (BindTexture target texture) = Scope_glBindTexture"
| "macro_of (BindBuffer target buffer) = Scope_glBindBuffer"
| "macro_of (BindArrayBuffer vbo) = Scope_glBindArrayBuffer"
| "macro_of (Enable enumval) = Scope_glEnable"
| "macro_of (Disable enumval) = Scope_glDisable"
| "macro_of (BindFramebuffer target fbo) = Scope_glBindFramebuffer"
| "macro_of (FramebufferTexture target point textarget texture level) = Scope_glFramebufferTexture"
| "macro_of (BindRenderbuffer target renderbuffer) = Scope_glBindRenderbuffer"
| "macro_of (FramebufferRenderbuffer fbo point renderbuffer) = Scope_glFramebufferRenderbuffer"
| "macro_of (Viewport x y w h) = Scope_glViewport"
| "macro_of (ClearColor r g b a) = Scope_glClearColor"
| "macro_of (BlendFunc src dst) = Scope_glBlendFunc"
| "macro_of (BlendEquation eq) = Scope_glBlendEquation"
| "macro_of (CullFace mode) = Scope_glCullFace"
| "macro_of (FrontFace orient) = Scope_glFrontFace"
| "macro_of (BindTexture2D tex_id) = Scope_glBindTexture2D"
| "macro_of (BindFBO fbo) = Scope_glBindFBO"
| "macro_of (BindSSBO ssbo binding) = Scope_glBindSSBO"
| "macro_of (Tex2DParameter param val) = Scope_glTex2DParameter"
| "macro_of (UniformMatrix4fv matrix name) = Scope_glUniformMatrix4fv"
| "macro_of (Uniformfv val name) = Scope_glUniformfv"

text \<open>
  The names an expansion passes to \<^verbatim>\<open>UQ\<close> where it declares its transient locals, in the
  order of the declarations: in the header's own \<^verbatim>\<open>for\<close> clauses, or as the argument \<^verbatim>\<open>var\<close>
  of \<^verbatim>\<open>scope_begin_end_var\<close>. The name is a token of the header, but for
  \<^verbatim>\<open>_unset_glBindSSBO(ssbo, binding)\<close>: it passes \<^verbatim>\<open>ssbo\<close> as \<^verbatim>\<open>var\<close>, which is its own first
  parameter, so the preprocessor puts the tokens of the invocation's first argument
  there. \<open>arg\<close> is that argument, as the caller wrote it.
\<close>

fun base_names :: "scope_mode \<Rightarrow> macro \<Rightarrow> string \<Rightarrow> string list" where
  "base_names RESTORE Scope_glUseProgram arg = [''prog'', ''i'']"
| "base_names RESTORE Scope_glBindVertexArray arg = [''old_vao'', ''i'']"
| "base_names RESTORE Scope_glBindTexture arg = [''old_tex'', ''i'']"
| "base_names RESTORE Scope_glBindBuffer arg = [''old_buf'', ''i'']"
| "base_names RESTORE Scope_glBindArrayBuffer arg = [''old_vbo'', ''i'']"
| "base_names RESTORE Scope_glEnable arg = [''old_flag'', ''i'']"
| "base_names RESTORE Scope_glDisable arg = [''old_flag'', ''i'']"
| "base_names RESTORE Scope_glBindFramebuffer arg = [''old_fbo'', ''i'']"
| "base_names RESTORE Scope_glFramebufferTexture arg = [''fbotex'']"
| "base_names RESTORE Scope_glBindRenderbuffer arg = [''renbuf'']"
| "base_names RESTORE Scope_glFramebufferRenderbuffer arg = [''fborenbuf'']"
| "base_names RESTORE Scope_glViewport arg = [''view'', ''i'']"
| "base_names RESTORE Scope_glClearColor arg = [''clear'', ''i'']"
| "base_names RESTORE Scope_glBlendFunc arg = [''s'', ''d'', ''i'']"
| "base_names RESTORE Scope_glBlendEquation arg = [''e'', ''i'']"
| "base_names RESTORE Scope_glCullFace arg = [''m'', ''i'']"
| "base_names RESTORE Scope_glFrontFace arg = [''fo'', ''i'']"
| "base_names RESTORE Scope_glBindTexture2D arg = [''old_tex'', ''i'']"
| "base_names RESTORE Scope_glBindFBO arg = [''old_fbo'', ''i'']"
| "base_names RESTORE Scope_glBindSSBO arg = [''old_ssbo'', ''i'']"
| "base_names RESTORE Scope_glTex2DParameter arg = [''t2d'', ''i'']"
| "base_names RESET Scope_glUseProgram arg = [''prog'']"
| "base_names RESET Scope_glBindVertexArray arg = [''vertarr'']"
| "base_names RESET Scope_glBindTexture arg = [''texbind'']"
| "base_names RESET Scope_glBindBuffer arg = [''glbuf'']"
| "base_names RESET Scope_glBindArrayBuffer arg = [''arrbuf'']"
| "base_names RESET Scope_glEnable arg = [''glenable'']"
| "base_names RESET Scope_glDisable arg = [''glenable'']"
| "base_names RESET Scope_glBindFramebuffer arg = [''old_fbo'']"
| "base_names RESET Scope_glFramebufferTexture arg = [''fbotex'']"
| "base_names RESET Scope_glBindRenderbuffer arg = [''renbuf'']"
| "base_names RESET Scope_glFramebufferRenderbuffer arg = [''fborenbuf'']"
| "base_names RESET Scope_glViewport arg = [''glview'']"
| "base_names RESET Scope_glClearColor arg = [''glclear'']"
| "base_names RESET Scope_glBlendFunc arg = [''glblend'']"
| "base_names RESET Scope_glBlendEquation arg = [''glblendeq'']"
| "base_names RESET Scope_glCullFace arg = [''glcull'']"
| "base_names RESET Scope_glFrontFace arg = [''glfront'']"
| "base_names RESET Scope_glBindTexture2D arg = [''texbind'']"
| "base_names RESET Scope_glBindFBO arg = [''old_fbo'']"
| "base_names RESET Scope_glBindSSBO arg = [arg]"
| "base_names RESET Scope_glTex2DParameter arg = [''gltexparam'']"
| "base_names m Scope_glUniformMatrix4fv arg = [''prog'', ''j'', ''mat'', ''i'']"
| "base_names m Scope_glUniformfv arg = [''prog'', ''j'', ''old_val'', ''i'']"

text \<open>
  A macro is invoked at a line and a column of the caller's source. \<^verbatim>\<open>UQ(name)\<close> in its
  expansion reads \<^verbatim>\<open>__LINE__\<close>, the line; nothing in the header reads the column. These are
  the names of the transient locals of an invocation.
\<close>

definition transient_names :: "scope_mode \<Rightarrow> macro \<Rightarrow> string \<Rightarrow> nat \<times> nat \<Rightarrow> string list" where
  "transient_names m k arg site = map (\<lambda>name. UQ name (fst site)) (base_names m k arg)"

section \<open>Concrete contexts\<close>

text \<open>A context with nothing bound, every capability disabled and no call made.\<close>

definition initial_context :: gl_context where
  "initial_context =
     \<lparr>current_program = 0, vertex_array_binding = 0, texture_binding = (\<lambda>_. 0),
      buffer_binding = (\<lambda>_. 0), indexed_buffer_binding = (\<lambda>_ _. 0), capability = (\<lambda>_. False),
      draw_framebuffer_binding = 0, read_framebuffer_binding = 0,
      framebuffer_attachment = (\<lambda>_ _. NoAttachment), renderbuffer_binding = 0,
      viewport = (0, 0, 0, 0), color_clear_value = (0, 0, 0, 0), blend_src = 1, blend_dst = 0,
      blend_equation = 0x8006, cull_face_mode = 0x0405, front_face = 0x0901,
      tex_parameter = (\<lambda>_ _. 0), uniform_location = (\<lambda>_ _. - 1), uniform_value = (\<lambda>_ _. []),
      calls = []\<rparr>"

text \<open>
  An environment of an expansion: locals whose memory held \<^verbatim>\<open>0xCCCCCCCC\<close>, and a caller
  whose \<^verbatim>\<open>vbo\<close> is 0 and whose \<^verbatim>\<open>glFrontface\<close> is \<^verbatim>\<open>glFrontFace\<close>.
\<close>

definition sample_env :: scope_env where
  "sample_env =
     \<lparr>indeterminate_int = 0xCCCCCCCC, indeterminate_float = - 1,
      indeterminate_floats = replicate 16 (- 1), caller_vbo = 0, caller_old_vbo = 0,
      caller_glFrontface = glFrontFace\<rparr>"


text \<open>Statements for the body of a scope.\<close>

definition skip :: "'s stmt" where
  "skip s = Some (Normal, s)"

definition return_stmt :: "'s stmt" where
  "return_stmt s = Some (Return, s)"

definition break_stmt :: "'s stmt" where
  "break_stmt s = Some (Break, s)"

definition call_stmt :: "('s \<Rightarrow> 's) \<Rightarrow> 's stmt" where
  "call_stmt f s = Some (Normal, f s)"

section \<open>State slots\<close>

text \<open>
  A slot is one state variable of the context that a call sets: a binding point, a
  capability, an attachment point of a framebuffer object, a parameter of a texture
  object, a uniform of a program object, or one of the global settings.
\<close>

datatype slot =
    ProgramSlot
  | VertexArraySlot
  | TextureSlot GLenum
  | BufferSlot GLenum
  | IndexedBufferSlot GLenum GLuint
  | CapabilitySlot GLenum
  | DrawFramebufferSlot
  | ReadFramebufferSlot
  | AttachmentSlot GLuint GLenum
  | RenderbufferSlot
  | ViewportSlot
  | ClearColorSlot
  | BlendSrcSlot
  | BlendDstSlot
  | BlendEquationSlot
  | CullFaceSlot
  | FrontFaceSlot
  | TexParameterSlot GLuint GLenum
  | UniformSlot GLuint GLint

datatype gl_value =
    Name GLint
  | Flag bool
  | Rect "GLint \<times> GLint \<times> GLint \<times> GLint"
  | Color "GLfloat \<times> GLfloat \<times> GLfloat \<times> GLfloat"
  | Attached attachment
  | Floats "GLfloat list"

fun get_slot :: "gl_context \<Rightarrow> slot \<Rightarrow> gl_value" where
  "get_slot s ProgramSlot = Name (current_program s)"
| "get_slot s VertexArraySlot = Name (vertex_array_binding s)"
| "get_slot s (TextureSlot target) = Name (texture_binding s target)"
| "get_slot s (BufferSlot target) = Name (buffer_binding s target)"
| "get_slot s (IndexedBufferSlot target index) = Name (indexed_buffer_binding s target index)"
| "get_slot s (CapabilitySlot cap) = Flag (capability s cap)"
| "get_slot s DrawFramebufferSlot = Name (draw_framebuffer_binding s)"
| "get_slot s ReadFramebufferSlot = Name (read_framebuffer_binding s)"
| "get_slot s (AttachmentSlot fb point) = Attached (framebuffer_attachment s fb point)"
| "get_slot s RenderbufferSlot = Name (renderbuffer_binding s)"
| "get_slot s ViewportSlot = Rect (viewport s)"
| "get_slot s ClearColorSlot = Color (color_clear_value s)"
| "get_slot s BlendSrcSlot = Name (blend_src s)"
| "get_slot s BlendDstSlot = Name (blend_dst s)"
| "get_slot s BlendEquationSlot = Name (blend_equation s)"
| "get_slot s CullFaceSlot = Name (cull_face_mode s)"
| "get_slot s FrontFaceSlot = Name (front_face s)"
| "get_slot s (TexParameterSlot texture pname) = Name (tex_parameter s texture pname)"
| "get_slot s (UniformSlot program location) = Floats (uniform_value s program location)"





text \<open>
  The calls the exit action of an invocation makes when it runs in the state \<open>t\<close>, for the
  entry state \<open>s0\<close>, read off the increment clauses: in RESTORE mode with the values the
  init clause read in \<open>s0\<close>, in RESET mode with the constants of the macro.
\<close>

fun exit_calls :: "scope_mode \<Rightarrow> scope_env \<Rightarrow> scope_call \<Rightarrow> gl_context \<Rightarrow> gl_context \<Rightarrow> gl_call list" where
  "exit_calls RESTORE env (UseProgram id') s0 t = [Call_glUseProgram (current_program s0)]"
| "exit_calls RESTORE env (BindVertexArray vao) s0 t = [Call_glBindVertexArray (vertex_array_binding s0)]"
| "exit_calls RESTORE env (BindTexture target texture) s0 t =
     [Call_glBindTexture target
        (written_to (indeterminate_int env)
           (integer_state s0 (scope_gl_map_texture_target_to_binding target)))]"
| "exit_calls RESTORE env (BindBuffer target buffer) s0 t = [Call_glBindBuffer target (caller_old_vbo env)]"
| "exit_calls RESTORE env (BindArrayBuffer vbo) s0 t =
     [Call_glBindBuffer GL_ARRAY_BUFFER (buffer_binding s0 GL_ARRAY_BUFFER)]"
| "exit_calls RESTORE env (Enable enumval) s0 t =
     [if written_boolean (indeterminate_int env) (if capability s0 enumval then GL_TRUE else GL_FALSE) \<noteq> 0
      then Call_glEnable enumval else Call_glDisable enumval]"
| "exit_calls RESTORE env (Disable enumval) s0 t =
     [if written_boolean (indeterminate_int env) (if capability s0 enumval then GL_TRUE else GL_FALSE) \<noteq> 0
      then Call_glEnable enumval else Call_glDisable enumval]"
| "exit_calls RESTORE env (BindFramebuffer target fbo) s0 t =
     [Call_glBindFramebuffer target (written_to (indeterminate_int env) (integer_state s0 target))]"
| "exit_calls RESTORE env (FramebufferTexture target point textarget texture level) s0 t =
     [Call_glFramebufferTexture2D target point textarget 0 0]"
| "exit_calls RESTORE env (BindRenderbuffer target renderbuffer) s0 t = [Call_glBindRenderbuffer target 0]"
| "exit_calls RESTORE env (FramebufferRenderbuffer fbo point renderbuffer) s0 t =
     [Call_glFramebufferRenderbuffer GL_FRAMEBUFFER point GL_RENDERBUFFER 0]"
| "exit_calls RESTORE env (Viewport x y w h) s0 t =
     [case viewport s0 of (x0, y0, w0, h0) \<Rightarrow> Call_glViewport x0 y0 w0 h0]"
| "exit_calls RESTORE env (ClearColor r g b a) s0 t =
     [case color_clear_value s0 of (r0, g0, b0, a0) \<Rightarrow> Call_glClearColor r0 g0 b0 a0]"
| "exit_calls RESTORE env (BlendFunc src dst) s0 t = [Call_glBlendFunc (blend_src s0) (blend_dst s0)]"
| "exit_calls RESTORE env (BlendEquation eq) s0 t = [Call_glBlendEquation (blend_equation s0)]"
| "exit_calls RESTORE env (CullFace mode) s0 t = [Call_glCullFace (cull_face_mode s0)]"
| "exit_calls RESTORE env (FrontFace orient) s0 t = [Call_glFrontFace (front_face s0)]"
| "exit_calls RESTORE env (BindTexture2D tex_id) s0 t =
     [Call_glBindTexture GL_TEXTURE_2D (texture_binding s0 GL_TEXTURE_2D)]"
| "exit_calls RESTORE env (BindFBO fbo) s0 t =
     [Call_glBindFramebuffer GL_FRAMEBUFFER (draw_framebuffer_binding s0)]"
| "exit_calls RESTORE env (BindSSBO ssbo binding) s0 t =
     [Call_glBindBufferBase GL_SHADER_STORAGE_BUFFER binding (buffer_binding s0 GL_SHADER_STORAGE_BUFFER),
      Call_glBindBuffer GL_SHADER_STORAGE_BUFFER (buffer_binding s0 GL_SHADER_STORAGE_BUFFER)]"
| "exit_calls RESTORE env (Tex2DParameter param val) s0 t =
     [Call_glTexParameteri GL_TEXTURE_2D param (tex_parameter s0 (texture_binding s0 GL_TEXTURE_2D) param)]"
| "exit_calls RESET env (UseProgram id') s0 t = [Call_glUseProgram 0]"
| "exit_calls RESET env (BindVertexArray vao) s0 t = [Call_glBindVertexArray 0]"
| "exit_calls RESET env (BindTexture target texture) s0 t = [Call_glBindTexture target 0]"
| "exit_calls RESET env (BindBuffer target buffer) s0 t = [Call_glBindBuffer target 0]"
| "exit_calls RESET env (BindArrayBuffer vbo) s0 t = [Call_glBindBuffer GL_ARRAY_BUFFER 0]"
| "exit_calls RESET env (Enable enumval) s0 t = [Call_glDisable enumval]"
| "exit_calls RESET env (Disable enumval) s0 t = [Call_glEnable enumval]"
| "exit_calls RESET env (BindFramebuffer target fbo) s0 t = [Call_glBindFramebuffer target 0]"
| "exit_calls RESET env (FramebufferTexture target point textarget texture level) s0 t =
     [Call_glFramebufferTexture2D target point textarget 0 0]"
| "exit_calls RESET env (BindRenderbuffer target renderbuffer) s0 t = [Call_glBindRenderbuffer target 0]"
| "exit_calls RESET env (FramebufferRenderbuffer fbo point renderbuffer) s0 t =
     [Call_glFramebufferRenderbuffer GL_FRAMEBUFFER point GL_RENDERBUFFER 0]"
| "exit_calls RESET env (Viewport x y w h) s0 t = [Call_glViewport 0 0 0 0]"
| "exit_calls RESET env (ClearColor r g b a) s0 t = [Call_glClearColor 0 0 0 0]"
| "exit_calls RESET env (BlendFunc src dst) s0 t = [Call_glBlendFunc 0 0]"
| "exit_calls RESET env (BlendEquation eq) s0 t = [Call_glBlendEquation 0]"
| "exit_calls RESET env (CullFace mode) s0 t = [Call_glCullFace 0]"
| "exit_calls RESET env (FrontFace orient) s0 t = [Call_glFrontFace 0]"
| "exit_calls RESET env (BindTexture2D tex_id) s0 t = [Call_glBindTexture GL_TEXTURE_2D 0]"
| "exit_calls RESET env (BindFBO fbo) s0 t = [Call_glBindFramebuffer GL_FRAMEBUFFER 0]"
| "exit_calls RESET env (BindSSBO ssbo binding) s0 t =
     [Call_glBindBufferBase GL_SHADER_STORAGE_BUFFER binding 0,
      Call_glBindBuffer GL_SHADER_STORAGE_BUFFER 0]"
| "exit_calls RESET env (Tex2DParameter param val) s0 t = [Call_glTexParameteri GL_TEXTURE_2D param 0]"
| "exit_calls m env (UniformMatrix4fv matrix name) s0 t =
     (let p = current_program s0; l = uniform_location s0 p name in
      [Call_glGetUniformLocation p name,
       Call_glUniformMatrix4fv (uniform_location t p name) 1 GL_FALSE
         (written_array (indeterminate_floats env) (if l = - 1 then [] else uniform_value s0 p l))])"
| "exit_calls m env (Uniformfv val name) s0 t =
     (let p = current_program s0; l = uniform_location s0 p name in
      [Call_glGetUniformLocation p name,
       Call_glUniform1f (uniform_location t p name)
         (written_to (indeterminate_float env) (if l = - 1 then [] else uniform_value s0 p l))])"

text \<open>The calls of the exit actions of a list of frames, the first of the list first.\<close>

definition exits_trace ::
  "scope_mode \<Rightarrow> scope_env \<Rightarrow> (scope_call \<times> gl_context) list \<Rightarrow> gl_context \<Rightarrow> gl_call list" where
  "exits_trace m env fs t = concat (map (\<lambda>(sc, s0). exit_calls m env sc s0 t) fs)"



section \<open>Properties of the control flow\<close>

lemma c_for_loop_stop: "\<not> cond l \<Longrightarrow> c_for_loop cond incr body l s = Some (Normal, s)"
  by (subst c_for_loop.simps) simp

lemma c_for_loop_once:
  assumes "cond l" and "\<And>t. \<not> cond (fst (incr l t))"
  shows "c_for_loop cond incr body l s = map_option (after_body (\<lambda>t. snd (incr l t))) (body l s)"
proof (cases "body l s")
  case None
  then show ?thesis using assms(1) by (subst c_for_loop.simps) simp
next
  case (Some r)
  obtain c s' where r: "r = (c, s')" by (cases r)
  obtain l' s'' where i: "incr l s' = (l', s'')" by (cases "incr l s'")
  have "\<not> cond l'" using assms(2) [of s'] i by simp
  then have stop: "c_for_loop cond incr body l' s'' = Some (Normal, s'')"
    by (rule c_for_loop_stop)
  show ?thesis
    using assms(1) Some r i stop
    by (subst c_for_loop.simps) (cases c; simp)
qed

lemma c_for_once:
  assumes "for_cond h (fst (for_init h s))"
    and "\<And>l t. for_cond h l \<Longrightarrow> \<not> for_cond h (fst (for_incr h l t))"
  shows "c_for h body s =
     map_option (after_body (header_exit h s)) (body (fst (for_init h s)) (header_enter h s))"
proof -
  obtain l s1 where i: "for_init h s = (l, s1)" by (cases "for_init h s")
  have "c_for_loop (for_cond h) (for_incr h) body l s1 =
        map_option (after_body (\<lambda>t. snd (for_incr h l t))) (body l s1)"
    using assms i by (intro c_for_loop_once) auto
  moreover have "header_exit h s = (\<lambda>t. snd (for_incr h l t))"
    by (simp add: fun_eq_iff header_exit_def i)
  ultimately show ?thesis
    by (simp add: c_for_def i header_enter_def)
qed

lemma scoped_once:
  assumes "for_cond h (fst (for_init h s))"
    and "\<And>l t. for_cond h l \<Longrightarrow> \<not> for_cond h (fst (for_incr h l t))"
  shows "scoped h body s = map_option (after_body (header_exit h s)) (body (header_enter h s))"
  unfolding scoped_def using assms by (rule c_for_once)

lemma scoped_begin_end_var:
  "scoped (scope_begin_end_var b e) body s = map_option (after_body e) (body (b s))"
proof -
  have "scoped (scope_begin_end_var b e) body s =
        map_option (after_body (header_exit (scope_begin_end_var b e) s))
          (body (header_enter (scope_begin_end_var b e) s))"
    by (rule scoped_once) (simp_all add: scope_begin_end_var_def)
  moreover have "header_exit (scope_begin_end_var b e) s = e"
    by (simp add: fun_eq_iff header_exit_def scope_begin_end_var_def)
  ultimately show ?thesis
    by (simp add: scope_begin_end_var_def header_enter_def)
qed

lemma actions_begin_end_var: "actions (scope_begin_end_var b e) = (b, \<lambda>s0. e)"
  by (simp add: actions_def scope_begin_end_var_def header_exit_def header_enter_def fun_eq_iff)

lemma scoped_actions:
  assumes "for_cond h (fst (for_init h s))"
    and "\<And>l t. for_cond h l \<Longrightarrow> \<not> for_cond h (fst (for_incr h l t))"
  shows "scoped h body s = map_option (after_body (snd (actions h) s)) (body (fst (actions h) s))"
  using scoped_once [OF assms] by (simp add: actions_def)

lemma after_body_twice: "after_body (\<lambda>t. t) (after_body e r) = after_body e r"
  by (cases "(e, r)" rule: after_body.cases) simp_all

lemma nested_once:
  assumes "\<And>prog s. for_cond (inner prog) (fst (for_init (inner prog) s))"
    and "\<And>prog l t. for_cond (inner prog) l \<Longrightarrow> \<not> for_cond (inner prog) (fst (for_incr (inner prog) l t))"
  shows "c_for (uniform_outer env) (\<lambda>(prog, j). c_for (inner prog) (\<lambda>_. body)) s =
     map_option (after_body (snd (nested_actions env inner) s)) (body (fst (nested_actions env inner) s))"
proof -
  let ?h = "uniform_outer env"
  obtain prog j where l: "fst (for_init ?h s) = (prog, j)" by (cases "fst (for_init ?h s)")
  have p: "uniform_prog env s = prog" by (simp add: uniform_prog_def l)
  have ex: "header_exit ?h s = (\<lambda>t. t)"
    by (simp add: fun_eq_iff header_exit_def uniform_outer_def split: prod.splits)
  have "c_for ?h (\<lambda>(prog, j). c_for (inner prog) (\<lambda>_. body)) s =
        map_option (after_body (header_exit ?h s))
          ((\<lambda>(prog, j). c_for (inner prog) (\<lambda>_. body)) (fst (for_init ?h s)) (header_enter ?h s))"
    by (rule c_for_once) (simp_all add: uniform_outer_def split: prod.splits)
  also have "\<dots> = map_option (after_body (\<lambda>t. t)) (scoped (inner prog) body (header_enter ?h s))"
    by (simp add: l ex scoped_def)
  also have "scoped (inner prog) body (header_enter ?h s) =
        map_option (after_body (header_exit (inner prog) (header_enter ?h s)))
          (body (header_enter (inner prog) (header_enter ?h s)))"
    by (rule scoped_once) (simp_all add: assms)
  finally show ?thesis
    by (simp add: nested_actions_def p option.map_comp comp_def after_body_twice)
qed

lemmas restore_headers =
  restore_glUseProgram_def restore_glBindVertexArray_def restore_glBindTexture_def
  restore_glBindTexture2D_def restore_glBindBuffer_def restore_glBindArrayBuffer_def
  restore_glEnable_def restore_glDisable_def restore_glBindFramebuffer_def restore_glBindFBO_def
  restore_glFramebufferTexture_def restore_glBindRenderbuffer_def
  restore_glFramebufferRenderbuffer_def restore_glViewport_def restore_glClearColor_def
  restore_glBlendFunc_def restore_glBlendEquation_def restore_glCullFace_def
  restore_glFrontFace_def restore_glBindSSBO_def restore_glTex2DParameter_def

lemmas unset_headers =
  unset_glUseProgram_def unset_glBindVertexArray_def unset_glBindTexture_def
  unset_glBindTexture2D_def unset_glBindBuffer_def unset_glBindArrayBuffer_def
  unset_glEnable_def unset_glDisable_def unset_glBindFramebuffer_def unset_glBindFBO_def
  unset_glFramebufferTexture_def unset_glBindRenderbuffer_def
  unset_glFramebufferRenderbuffer_def unset_glViewport_def unset_glClearColor_def
  unset_glBlendFunc_def unset_glBlendEquation_def unset_glCullFace_def
  unset_glFrontFace_def unset_glBindSSBO_def unset_glTex2DParameter_def

lemma scope_gl_restore_eq:
  "scope_gl RESTORE env sc body s =
     map_option (after_body (exit_action RESTORE env sc s)) (body (enter_action RESTORE env sc s))"
proof (cases sc)
  case (UniformMatrix4fv matrix name)
  then show ?thesis
    unfolding enter_action_def exit_action_def
    by (simp add: scope_glUniformMatrix4fv_def)
       (rule nested_once; simp add: uniformMatrix4fv_inner_def split: prod.splits)
next
  case (Uniformfv val name)
  then show ?thesis
    unfolding enter_action_def exit_action_def
    by (simp add: scope_glUniformfv_def)
       (rule nested_once; simp add: uniformfv_inner_def split: prod.splits)
qed (simp_all add: enter_action_def exit_action_def,
     (rule scoped_actions; simp add: restore_headers scope_begin_end_var_def split: prod.splits)+)

lemma scope_gl_reset_eq:
  "scope_gl RESET env sc body s =
     map_option (after_body (exit_action RESET env sc s)) (body (enter_action RESET env sc s))"
proof (cases sc)
  case (UniformMatrix4fv matrix name)
  then show ?thesis
    unfolding enter_action_def exit_action_def
    by (simp add: scope_glUniformMatrix4fv_def)
       (rule nested_once; simp add: uniformMatrix4fv_inner_def split: prod.splits)
next
  case (Uniformfv val name)
  then show ?thesis
    unfolding enter_action_def exit_action_def
    by (simp add: scope_glUniformfv_def)
       (rule nested_once; simp add: uniformfv_inner_def split: prod.splits)
qed (simp_all add: enter_action_def exit_action_def,
     (rule scoped_actions; simp add: unset_headers scope_begin_end_var_def split: prod.splits)+)

lemma scope_gl_eq:
  "scope_gl m env sc body s =
     map_option (after_body (exit_action m env sc s)) (body (enter_action m env sc s))"
  by (cases m) (simp_all only: scope_gl_restore_eq scope_gl_reset_eq)

declare scope_gl.simps [simp del]

lemmas gl_calls =
  glGetIntegerv_def glGetBooleanv_def glGetFloatv_def glGetTexParameteriv_def
  glGetUniformLocation_def glGetUniformfv_def glUseProgram_def glBindVertexArray_def
  glBindTexture_def glBindBuffer_def glBindBufferBase_def glEnable_def glDisable_def
  glBindFramebuffer_def glFramebufferTexture2D_def glFramebufferRenderbuffer_def
  glBindRenderbuffer_def glViewport_def glClearColor_def glBlendFunc_def glBlendEquation_def
  glCullFace_def glFrontFace_def glTexParameteri_def glUniformMatrix4fv_def glUniform1f_def

lemmas action_defs =
  enter_action_def exit_action_def actions_def scope_begin_end_var_def nested_actions_def
  header_enter_def header_exit_def uniform_prog_def

lemmas uniform_headers = uniformMatrix4fv_inner_def uniformfv_inner_def uniform_outer_def

lemma calls_attach [simp]: "calls (attach target point a s) = calls s"
  by (simp add: attach_def split: option.splits)

lemma calls_set_uniform [simp]: "calls (set_uniform l v s) = calls s"
  by (simp add: set_uniform_def)

lemma exit_action_calls:
  "\<exists>c cs. calls (exit_action m env sc s s') = calls s' @ c # cs"
  by (cases m; cases sc)
     (simp_all add: action_defs restore_headers unset_headers uniform_headers gl_calls
        record_call_def split: prod.splits)

section \<open>Argument expressions on exit\<close>




lemma scope_gl_at_other:
  "macro_of sc' \<noteq> macro_of sc \<Longrightarrow> scope_gl_at m env sc sc' = scope_gl m env sc"
  by (cases m; cases sc; cases sc') simp_all

lemma c_for_For:
  assumes "c (fst (i s))" and "\<And>l t. c l \<Longrightarrow> \<not> c (fst (n l t))"
  shows "c_for (For i c n) body s =
     map_option (after_body (\<lambda>t. snd (n (fst (i s)) t))) (body (fst (i s)) (snd (i s)))"
proof -
  have "c_for (For i c n) body s =
     map_option (after_body (header_exit (For i c n) s))
       (body (fst (for_init (For i c n) s)) (header_enter (For i c n) s))"
    by (rule c_for_once) (simp_all add: assms)
  moreover have "header_exit (For i c n) s = (\<lambda>t. snd (n (fst (i s)) t))"
    by (simp add: fun_eq_iff header_exit_def)
  ultimately show ?thesis by (simp add: header_enter_def)
qed

lemma scoped_For:
  assumes "c (fst (i s))" and "\<And>l t. c l \<Longrightarrow> \<not> c (fst (n l t))"
  shows "scoped (For i c n) body s =
     map_option (after_body (\<lambda>t. snd (n (fst (i s)) t))) (body (snd (i s)))"
  unfolding scoped_def using assms by (rule c_for_For)

lemma reevaluated_For: "reevaluated (For i c n) (For i' c' n') = For i c n'"
  by (simp add: reevaluated_def)

lemma reevaluated_begin_end_var:
  "reevaluated (scope_begin_end_var b e) (scope_begin_end_var b' e') = scope_begin_end_var b e'"
  by (simp add: reevaluated_def scope_begin_end_var_def)

lemma actions_For: "actions (For i c n) = (\<lambda>s. snd (i s), \<lambda>s0 t. snd (n (fst (i s0)) t))"
  by (simp add: actions_def header_enter_def header_exit_def fun_eq_iff)

lemmas at_simps =
  scope_glUniformMatrix4fv_at_def scope_glUniformfv_at_def reevaluated_For
  reevaluated_begin_end_var scoped_For scoped_begin_end_var c_for_For enter_action_def
  actions_For actions_begin_end_var nested_actions_def header_enter_def header_exit_def
  uniform_prog_def restore_headers unset_headers uniform_headers

text \<open>
  An invocation runs its enter action, with the values of the arguments at entry, then its
  body once, then, as the body completes, its exit action, with the values of the
  arguments on exit.
\<close>

lemma scope_gl_at_eq:
  "scope_gl_at m env sc sc' body s =
     map_option (after_body (exit_action_at m env sc sc' s)) (body (enter_action m env sc s))"
proof (cases "macro_of sc' = macro_of sc")
  case False
  then show ?thesis
    by (simp add: scope_gl_at_other exit_action_at_def [abs_def] scope_gl_eq)
next
  case True
  then show ?thesis
    by (cases m; cases sc; cases sc'; simp)
       (simp_all add: exit_action_at_def [abs_def] at_simps option.map_comp comp_def
          after_body_twice split: prod.splits)
qed

text \<open>
  The exit action names the binding point by the argument as it is on exit:
  \<^verbatim>\<open>scope_glBindTexture(target, 7) target = GL_TEXTURE_3D;\<close> in RESTORE mode, with the texture 5
  bound to \<^verbatim>\<open>GL_TEXTURE_2D\<close> and \<^verbatim>\<open>target = GL_TEXTURE_2D\<close> before it, binds the texture 5 to
  \<^verbatim>\<open>GL_TEXTURE_3D\<close> on exit and leaves the texture 7 bound to \<^verbatim>\<open>GL_TEXTURE_2D\<close>.
\<close>

lemma exit_evaluates_arguments_again:
  "map_option (\<lambda>(c, t). (c, texture_binding t GL_TEXTURE_2D, texture_binding t GL_TEXTURE_3D, calls t))
     (scope_gl_at RESTORE sample_env (BindTexture GL_TEXTURE_2D 7) (BindTexture GL_TEXTURE_3D 7) skip
        (initial_context\<lparr>texture_binding := (\<lambda>t. if t = GL_TEXTURE_2D then 5 else 0)\<rparr>)) =
   Some (Normal, 7, 5,
     [Call_glGetIntegerv GL_TEXTURE_BINDING_2D, Call_glBindTexture GL_TEXTURE_2D 7,
      Call_glBindTexture GL_TEXTURE_3D 5])"
  by (simp add: scope_gl_at_eq exit_action_at_def at_simps gl_calls record_call_def skip_def
        initial_context_def scope_gl_map_texture_target_to_binding_def
        integer_state_def texture_binding_targets_def gl_enum written_to_def split: prod.splits)

section \<open>The scope primitive\<close>

text \<open>
  C1, as the code has it. For every macro, in either mode, the statement \<^verbatim>\<open>macro body\<close> runs
  the enter action, then the body once, in the state the enter action left. When the body
  falls through, or executes a \<^verbatim>\<open>continue\<close> that is not inside a loop of its own, the exit
  action runs once on the state the body left, and the statement completes normally (the
  \<^verbatim>\<open>continue\<close> ends the scope and does not reach a loop around it). When the body executes
  \<^verbatim>\<open>break\<close>, the statement completes normally without the exit action (and the \<^verbatim>\<open>break\<close>
  does not reach a loop around it); when it returns or exits non-locally, the statement
  does the same without the exit action. A body that does not terminate leaves no
  result. An exit action makes at least one call.
\<close>

theorem scope_enter_body_exit:
  "scope_gl m env sc body s =
     map_option (after_body (exit_action m env sc s)) (body (enter_action m env sc s))
   \<and> (\<exists>c cs. calls (exit_action m env sc s s') = calls s' @ c # cs)"
  by (simp only: scope_gl_eq exit_action_calls simp_thms)

text \<open>
  An instance: the active program is 3; \<^verbatim>\<open>scope_glUseProgram(9) glBindVertexArray(4);\<close> in
  RESTORE mode makes the four calls in this order and leaves the program 3.
\<close>

theorem scope_enter_body_exit_witness:
  "scope_gl RESTORE sample_env (UseProgram 9) (call_stmt (glBindVertexArray 4))
     (initial_context\<lparr>current_program := 3\<rparr>) =
   Some (Normal, initial_context\<lparr>current_program := 3, vertex_array_binding := 4,
     calls := [Call_glGetIntegerv GL_CURRENT_PROGRAM, Call_glUseProgram 9,
               Call_glBindVertexArray 4, Call_glUseProgram 3]\<rparr>)"
  using scope_enter_body_exit [of RESTORE sample_env "UseProgram 9" "call_stmt (glBindVertexArray 4)"
    "initial_context\<lparr>current_program := 3\<rparr>"]
  by (simp add: action_defs restore_headers gl_calls record_call_def call_stmt_def
        initial_context_def integer_state_def written_to_def)

text \<open>
  C1 as stated fails: with the active program 3, \<^verbatim>\<open>scope_glUseProgram(9) return;\<close> in RESET
  mode makes the one call \<^verbatim>\<open>glUseProgram(9)\<close> and returns with the program 9, and
  \<^verbatim>\<open>scope_glUseProgram(9) break;\<close> in RESTORE mode queries, calls \<^verbatim>\<open>glUseProgram(9)\<close> and
  completes with the program 9. The exit action ran in neither.
\<close>

theorem exit_skipped_on_return_and_break:
  "scope_gl RESET sample_env (UseProgram 9) return_stmt (initial_context\<lparr>current_program := 3\<rparr>) =
     Some (Return, initial_context\<lparr>current_program := 9, calls := [Call_glUseProgram 9]\<rparr>)
   \<and> scope_gl RESTORE sample_env (UseProgram 9) break_stmt (initial_context\<lparr>current_program := 3\<rparr>) =
     Some (Normal, initial_context\<lparr>current_program := 9,
       calls := [Call_glGetIntegerv GL_CURRENT_PROGRAM, Call_glUseProgram 9]\<rparr>)"
  by (simp add: scope_gl_eq action_defs restore_headers unset_headers gl_calls record_call_def
        return_stmt_def break_stmt_def initial_context_def)

section \<open>Transient names\<close>

declare decimal.simps [simp del]

lemma decimal_not_Nil: "decimal n \<noteq> []"
  by (subst decimal.simps) simp

lemma last_decimal: "last (decimal n) = char_of (48 + n mod 10)"
  by (subst decimal.simps) simp

lemma butlast_decimal: "butlast (decimal n) = (if n < 10 then [] else decimal (n div 10))"
  by (subst decimal.simps) simp

lemma digit_char_inj:
  assumes "char_of (48 + a mod 10 :: nat) = (char_of (48 + b mod 10 :: nat) :: char)"
  shows "a mod 10 = b mod 10"
proof -
  have "of_char (char_of (48 + a mod 10 :: nat) :: char) = (of_char (char_of (48 + b mod 10 :: nat) :: char) :: nat)"
    using assms by simp
  moreover have "(48 + a mod 10) mod 256 = 48 + a mod 10" "(48 + b mod 10) mod 256 = 48 + b mod 10"
    by simp_all
  ultimately show ?thesis
    by simp
qed

lemma decimal_inj: "decimal n = decimal m \<Longrightarrow> n = m"
proof (induction n arbitrary: m rule: decimal.induct)
  case (1 n)
  from "1.prems" have l: "last (decimal n) = last (decimal m)"
    and b: "butlast (decimal n) = butlast (decimal m)" by simp_all
  from l have "char_of (48 + n mod 10 :: nat) = (char_of (48 + m mod 10 :: nat) :: char)"
    by (simp only: last_decimal)
  then have md: "n mod 10 = m mod 10"
    by (rule digit_char_inj)
  have dv: "n div 10 = m div 10"
  proof (cases "n < 10")
    case True
    with b have "[] = butlast (decimal m)" by (simp only: butlast_decimal if_True)
    then have "m < 10"
      using decimal_not_Nil [of "m div 10"] by (simp only: butlast_decimal split: if_splits) simp
    with True show ?thesis by simp
  next
    case False
    with b have b': "decimal (n div 10) = butlast (decimal m)" by (simp only: butlast_decimal if_False)
    have m: "\<not> m < 10"
    proof
      assume "m < 10"
      with b' have "decimal (n div 10) = []" by (simp only: butlast_decimal if_True)
      with decimal_not_Nil show False by blast
    qed
    with b' have e: "decimal (n div 10) = decimal (m div 10)" by (simp only: butlast_decimal if_False)
    from "1.IH" [OF False e] show ?thesis .
  qed
  have "n = n div 10 * 10 + n mod 10" by simp
  also have "\<dots> = m div 10 * 10 + m mod 10" using md dv by simp
  also have "\<dots> = m" by simp
  finally show ?case .
qed

lemma UQ_inj: "UQ name l1 = UQ name l2 \<longleftrightarrow> l1 = l2"
  by (auto simp: UQ_def CONCAT_def TOKEN_PASTE_def dest: decimal_inj)

lemma decimal_42: "decimal 42 = ''42''"
  by code_simp

lemma UQ_Cons: "UQ (c # name) l = c # UQ name l"
  by (simp add: UQ_def CONCAT_def TOKEN_PASTE_def)

lemma decimal_310: "decimal 310 = ''310''"
  by code_simp

lemma base_names_fixed:
  "\<not> (m = RESET \<and> k = Scope_glBindSSBO) \<Longrightarrow> base_names m k a = base_names m k a'"
  by (cases m; cases k) simp_all

text \<open>
  C5, as the code has it. For every macro in either mode, but \<^verbatim>\<open>scope_glBindSSBO\<close> without
  \<^verbatim>\<open>SCOPE_GL_RESTORE_STATE\<close>: the names of the transient locals of an invocation are the
  base names of the macro, which do not depend on the arguments, each with the decimal
  number of the line of the invocation pasted behind it; there is at least one. So the
  names depend on the line of the invocation and on nothing else, neither on the column
  nor on the arguments: two invocations of the macro on one line declare the same names,
  and two invocations of the macro on different lines have no name in common.
\<close>

theorem transient_names_by_line:
  assumes "\<not> (m = RESET \<and> k = Scope_glBindSSBO)"
  shows "transient_names m k a1 (l1, c1) = map (\<lambda>name. name @ decimal l1) (base_names m k a2)
   \<and> transient_names m k a1 (l1, c1) \<noteq> []
   \<and> (l1 = l2 \<longrightarrow> transient_names m k a1 (l1, c1) = transient_names m k a2 (l2, c2))
   \<and> (l1 \<noteq> l2 \<longrightarrow> set (transient_names m k a1 (l1, c1)) \<inter> set (transient_names m k a2 (l2, c2)) = {})"
proof -
  have "transient_names m k a1 (l1, c1) = map (\<lambda>name. name @ decimal l1) (base_names m k a2)"
    using base_names_fixed [OF assms, of a1 a2]
    by (simp add: transient_names_def UQ_def CONCAT_def TOKEN_PASTE_def)
  moreover have "transient_names m k a1 (l1, c1) \<noteq> []
   \<and> (l1 = l2 \<longrightarrow> transient_names m k a1 (l1, c1) = transient_names m k a2 (l2, c2))
   \<and> (l1 \<noteq> l2 \<longrightarrow> set (transient_names m k a1 (l1, c1)) \<inter> set (transient_names m k a2 (l2, c2)) = {})"
    using assms
    by (cases m; cases k) (simp_all add: transient_names_def UQ_Cons UQ_inj)
  ultimately show ?thesis by simp
qed

text \<open>
  An instance of C5: \<^verbatim>\<open>scope_glUseProgram(a)\<close> at the line 42, column 1, and
  \<^verbatim>\<open>scope_glUseProgram(b)\<close> at the line 42, column 30, declare the same names;
  \<^verbatim>\<open>scope_glUseProgram(a)\<close> at the line 43 has no name in common with them.
\<close>

theorem transient_names_by_line_witness:
  "transient_names RESTORE Scope_glUseProgram ''a'' (42, 1) =
     transient_names RESTORE Scope_glUseProgram ''b'' (42, 30)
   \<and> set (transient_names RESTORE Scope_glUseProgram ''a'' (42, 1))
       \<inter> set (transient_names RESTORE Scope_glUseProgram ''a'' (43, 1)) = {}"
proof -
  have h: "\<not> (RESTORE = RESET \<and> Scope_glUseProgram = Scope_glBindSSBO)" by simp
  note same = transient_names_by_line
    [where m = RESTORE and k = Scope_glUseProgram and ?a1.0 = "''a''" and ?l1.0 = 42 and ?c1.0 = 1
       and ?a2.0 = "''b''" and ?l2.0 = 42 and ?c2.0 = 30,
     OF h, THEN conjunct2, THEN conjunct2, THEN conjunct1, THEN mp, OF refl]
  have d: "(42 :: nat) \<noteq> 43" by simp
  note other = transient_names_by_line
    [where m = RESTORE and k = Scope_glUseProgram and ?a1.0 = "''a''" and ?l1.0 = 42 and ?c1.0 = 1
       and ?a2.0 = "''a''" and ?l2.0 = 43 and ?c2.0 = 1,
     OF h, THEN conjunct2, THEN conjunct2, THEN conjunct2, THEN mp, OF d]
  from same other show ?thesis by (rule conjI)
qed

text \<open>
  C5 as stated fails: two invocations of \<^verbatim>\<open>scope_glUseProgram\<close> on the line 42, at the
  columns 1 and 30, both declare \<^verbatim>\<open>prog42\<close> and \<^verbatim>\<open>i42\<close> with \<^verbatim>\<open>SCOPE_GL_RESTORE_STATE\<close>, and
  both declare \<^verbatim>\<open>prog42\<close> without it.
\<close>

theorem same_line_scopes_share_names:
  "transient_names RESTORE Scope_glUseProgram ''a'' (42, 1) = [''prog42'', ''i42'']
   \<and> transient_names RESTORE Scope_glUseProgram ''b'' (42, 30) = [''prog42'', ''i42'']
   \<and> transient_names RESET Scope_glUseProgram ''a'' (42, 1) = [''prog42'']
   \<and> transient_names RESET Scope_glUseProgram ''b'' (42, 30) = [''prog42'']"
  by (simp add: transient_names_def UQ_def CONCAT_def TOKEN_PASTE_def decimal_42)

text \<open>
  \<^verbatim>\<open>_unset_glBindSSBO\<close> names its local by the first argument of the invocation:
  \<^verbatim>\<open>scope_glBindSSBO(buf, 0)\<close> and \<^verbatim>\<open>scope_glBindSSBO(other, 1)\<close> on the line 310 declare
  \<^verbatim>\<open>buf310\<close> and \<^verbatim>\<open>other310\<close>. With \<^verbatim>\<open>SCOPE_GL_RESTORE_STATE\<close> the names are those of the
  header.
\<close>

lemma unset_glBindSSBO_names_by_argument:
  "transient_names RESET Scope_glBindSSBO ''buf'' (310, 1) = [''buf310'']
   \<and> transient_names RESET Scope_glBindSSBO ''other'' (310, 20) = [''other310'']
   \<and> transient_names RESTORE Scope_glBindSSBO ''buf'' (310, 1) = [''old_ssbo310'', ''i310'']"
  by (simp add: transient_names_def UQ_def CONCAT_def TOKEN_PASTE_def decimal_310)

section \<open>The texture binding lookup\<close>

text \<open>
  C6. \<^verbatim>\<open>_scope_gl_map_texture_target_to_binding\<close> maps each of the eleven texture targets
  to its binding enumerant, and every other input to 0; it has no other result.
\<close>

theorem map_texture_target_to_binding_table:
  "scope_gl_map_texture_target_to_binding GL_TEXTURE_1D = GL_TEXTURE_BINDING_1D
   \<and> scope_gl_map_texture_target_to_binding GL_TEXTURE_2D = GL_TEXTURE_BINDING_2D
   \<and> scope_gl_map_texture_target_to_binding GL_TEXTURE_3D = GL_TEXTURE_BINDING_3D
   \<and> scope_gl_map_texture_target_to_binding GL_TEXTURE_1D_ARRAY = GL_TEXTURE_BINDING_1D_ARRAY
   \<and> scope_gl_map_texture_target_to_binding GL_TEXTURE_2D_ARRAY = GL_TEXTURE_BINDING_2D_ARRAY
   \<and> scope_gl_map_texture_target_to_binding GL_TEXTURE_RECTANGLE = GL_TEXTURE_BINDING_RECTANGLE
   \<and> scope_gl_map_texture_target_to_binding GL_TEXTURE_CUBE_MAP = GL_TEXTURE_BINDING_CUBE_MAP
   \<and> scope_gl_map_texture_target_to_binding GL_TEXTURE_CUBE_MAP_ARRAY = GL_TEXTURE_BINDING_CUBE_MAP_ARRAY
   \<and> scope_gl_map_texture_target_to_binding GL_TEXTURE_BUFFER = GL_TEXTURE_BINDING_BUFFER
   \<and> scope_gl_map_texture_target_to_binding GL_TEXTURE_2D_MULTISAMPLE = GL_TEXTURE_BINDING_2D_MULTISAMPLE
   \<and> scope_gl_map_texture_target_to_binding GL_TEXTURE_2D_MULTISAMPLE_ARRAY =
       GL_TEXTURE_BINDING_2D_MULTISAMPLE_ARRAY
   \<and> (target \<notin> {GL_TEXTURE_1D, GL_TEXTURE_2D, GL_TEXTURE_3D, GL_TEXTURE_1D_ARRAY,
                  GL_TEXTURE_2D_ARRAY, GL_TEXTURE_RECTANGLE, GL_TEXTURE_CUBE_MAP,
                  GL_TEXTURE_CUBE_MAP_ARRAY, GL_TEXTURE_BUFFER, GL_TEXTURE_2D_MULTISAMPLE,
                  GL_TEXTURE_2D_MULTISAMPLE_ARRAY}
      \<longrightarrow> scope_gl_map_texture_target_to_binding target = 0)"
  by (simp add: scope_gl_map_texture_target_to_binding_def gl_enum)

text \<open>An instance: \<^verbatim>\<open>0x1234\<close> is no texture target and maps to 0; the cube map maps to its binding.\<close>

theorem map_texture_target_to_binding_table_witness:
  "(0x1234 :: GLenum) \<notin> {GL_TEXTURE_1D, GL_TEXTURE_2D, GL_TEXTURE_3D, GL_TEXTURE_1D_ARRAY,
                  GL_TEXTURE_2D_ARRAY, GL_TEXTURE_RECTANGLE, GL_TEXTURE_CUBE_MAP,
                  GL_TEXTURE_CUBE_MAP_ARRAY, GL_TEXTURE_BUFFER, GL_TEXTURE_2D_MULTISAMPLE,
                  GL_TEXTURE_2D_MULTISAMPLE_ARRAY}
   \<and> scope_gl_map_texture_target_to_binding 0x1234 = 0
   \<and> scope_gl_map_texture_target_to_binding 0x8513 = 0x8514"
proof -
  have out: "(0x1234 :: GLenum) \<notin> {GL_TEXTURE_1D, GL_TEXTURE_2D, GL_TEXTURE_3D, GL_TEXTURE_1D_ARRAY,
                  GL_TEXTURE_2D_ARRAY, GL_TEXTURE_RECTANGLE, GL_TEXTURE_CUBE_MAP,
                  GL_TEXTURE_CUBE_MAP_ARRAY, GL_TEXTURE_BUFFER, GL_TEXTURE_2D_MULTISAMPLE,
                  GL_TEXTURE_2D_MULTISAMPLE_ARRAY}"
    by (simp add: gl_enum)
  from map_texture_target_to_binding_table [of "0x1234"] out
  have "scope_gl_map_texture_target_to_binding 0x1234 = 0"
    and "scope_gl_map_texture_target_to_binding GL_TEXTURE_CUBE_MAP = GL_TEXTURE_BINDING_CUBE_MAP"
    by blast+
  with out show ?thesis by (simp add: gl_enum)
qed

section \<open>Facts about the context\<close>

lemma attach_fields [simp]:
  "current_program (attach target point a s) = current_program s"
  "vertex_array_binding (attach target point a s) = vertex_array_binding s"
  "texture_binding (attach target point a s) = texture_binding s"
  "buffer_binding (attach target point a s) = buffer_binding s"
  "indexed_buffer_binding (attach target point a s) = indexed_buffer_binding s"
  "capability (attach target point a s) = capability s"
  "draw_framebuffer_binding (attach target point a s) = draw_framebuffer_binding s"
  "read_framebuffer_binding (attach target point a s) = read_framebuffer_binding s"
  "renderbuffer_binding (attach target point a s) = renderbuffer_binding s"
  "viewport (attach target point a s) = viewport s"
  "color_clear_value (attach target point a s) = color_clear_value s"
  "blend_src (attach target point a s) = blend_src s"
  "blend_dst (attach target point a s) = blend_dst s"
  "blend_equation (attach target point a s) = blend_equation s"
  "cull_face_mode (attach target point a s) = cull_face_mode s"
  "front_face (attach target point a s) = front_face s"
  "tex_parameter (attach target point a s) = tex_parameter s"
  "uniform_location (attach target point a s) = uniform_location s"
  "uniform_value (attach target point a s) = uniform_value s"
  by (simp_all add: attach_def split: option.splits)


lemma set_uniform_fields [simp]:
  "current_program (set_uniform l v s) = current_program s"
  "vertex_array_binding (set_uniform l v s) = vertex_array_binding s"
  "texture_binding (set_uniform l v s) = texture_binding s"
  "buffer_binding (set_uniform l v s) = buffer_binding s"
  "indexed_buffer_binding (set_uniform l v s) = indexed_buffer_binding s"
  "capability (set_uniform l v s) = capability s"
  "draw_framebuffer_binding (set_uniform l v s) = draw_framebuffer_binding s"
  "read_framebuffer_binding (set_uniform l v s) = read_framebuffer_binding s"
  "framebuffer_attachment (set_uniform l v s) = framebuffer_attachment s"
  "renderbuffer_binding (set_uniform l v s) = renderbuffer_binding s"
  "viewport (set_uniform l v s) = viewport s"
  "color_clear_value (set_uniform l v s) = color_clear_value s"
  "blend_src (set_uniform l v s) = blend_src s"
  "blend_dst (set_uniform l v s) = blend_dst s"
  "blend_equation (set_uniform l v s) = blend_equation s"
  "cull_face_mode (set_uniform l v s) = cull_face_mode s"
  "front_face (set_uniform l v s) = front_face s"
  "tex_parameter (set_uniform l v s) = tex_parameter s"
  "uniform_location (set_uniform l v s) = uniform_location s"
  by (simp_all add: set_uniform_def)

lemma bound_framebuffer_calls [simp]:
  "bound_framebuffer (s\<lparr>calls := cs\<rparr>) target = bound_framebuffer s target"
  by (simp add: bound_framebuffer_def)

lemma get_slot_calls [simp]: "get_slot (s\<lparr>calls := cs\<rparr>) sl = get_slot s sl"
  by (cases sl) simp_all

lemma written_boolean_true: "written_boolean u GL_TRUE \<noteq> 0"
  by (simp add: written_boolean_def GL_TRUE_def or_eq_0_iff)

lemma written_boolean_false: "written_boolean u GL_FALSE = u AND 0xFFFFFF00"
  by (simp add: written_boolean_def GL_FALSE_def)


section \<open>Nested scopes\<close>

lemma run_exits_snoc:
  "run_exits m env (fs @ [(sc, s0)]) s' = exit_action m env sc s0 (run_exits m env fs s')"
  by (simp add: run_exits_def)

lemma frames_not_Nil: "scs \<noteq> [] \<Longrightarrow> frames m env scs s \<noteq> []"
  by (cases scs) simp_all

lemma uniform_location_exit:
  "uniform_location (exit_action m env sc s0 t) = uniform_location t"
  by (cases m; cases sc)
     (simp_all add: action_defs restore_headers unset_headers uniform_headers gl_calls
        record_call_def split: prod.splits)

lemma uniform_location_run_exits:
  "uniform_location (run_exits m env fs t) = uniform_location t"
  by (induction fs rule: rev_induct)
     (simp_all add: run_exits_def uniform_location_exit split: prod.splits)

lemma exit_calls_cong:
  "uniform_location t' = uniform_location t \<Longrightarrow> exit_calls m env sc s0 t' = exit_calls m env sc s0 t"
  by (cases m; cases sc) (simp_all add: Let_def)

text \<open>The calls an exit action makes are those of \<open>exit_calls\<close>, in this order.\<close>

lemma exit_action_trace:
  "calls (exit_action m env sc s0 t) = calls t @ exit_calls m env sc s0 t"
proof (cases sc)
  case (Viewport x y w h)
  then show ?thesis
    by (cases m; cases "viewport s0")
       (simp_all add: action_defs restore_headers unset_headers gl_calls record_call_def
          integer_state_def gl_enum written_array_def)
next
  case (ClearColor r g b a)
  then show ?thesis
    by (cases m; cases "color_clear_value s0")
       (simp_all add: action_defs restore_headers unset_headers gl_calls record_call_def
          written_array_def)
qed (cases m; simp add: action_defs restore_headers unset_headers uniform_headers gl_calls
        record_call_def integer_state_def texture_binding_targets_def gl_enum written_to_def Let_def)+

lemma run_exits_trace:
  "calls (run_exits m env fs t) = calls t @ exits_trace m env fs t"
proof (induction fs rule: rev_induct)
  case Nil
  then show ?case by (simp add: run_exits_def exits_trace_def)
next
  case (snoc f fs)
  obtain sc s0 where f: "f = (sc, s0)" by (cases f)
  have "exit_calls m env sc s0 (run_exits m env fs t) = exit_calls m env sc s0 t"
    by (rule exit_calls_cong) (rule uniform_location_run_exits)
  then show ?case
    using snoc by (simp add: f run_exits_snoc exit_action_trace) (simp add: exits_trace_def)
qed

text \<open>
  C4, as the code has it. Two \<^verbatim>\<open>scope_begin_end_var\<close> headers in front of one block run
  their begin actions in the order written and then the block; when the block falls
  through or executes \<^verbatim>\<open>continue\<close>, the end action of the second header runs and then the
  end action of the first; when it executes \<^verbatim>\<open>break\<close>, the end action of the first header
  runs and that of the second does not; when it returns or exits non-locally, neither
  runs. The calls that the exit actions of a list of frames make are those of the
  increment clauses of the macros (\<open>exit_calls\<close>), frame by frame in the order of the list,
  each with the values its own init clause read in the state its scope was entered in.
  And for any macros in front of one block, in either mode: when the block falls through
  or executes \<^verbatim>\<open>continue\<close>, the exit actions of all scopes run in the reverse of the order
  the scopes were entered in, the last-opened first; when the block executes \<^verbatim>\<open>break\<close>,
  the last-opened scope ends without its exit action and the exit actions of the other
  scopes run, in the same reverse order; when it returns or exits non-locally, none runs.
\<close>

theorem nested_exits_order:
  "scoped (scope_begin_end_var b1 e1) (scoped (scope_begin_end_var b2 e2) body) s =
     map_option (\<lambda>r. after_body e1 (after_body e2 r)) (body (b2 (b1 s)))
   \<and> calls (run_exits m env fs s') = calls s' @ exits_trace m env fs s'
   \<and> (scs \<noteq> [] \<and> body (enter_all m env scs s) = Some (c, s') \<longrightarrow>
        scopes m env scs body s = Some
          (case c of
             Normal \<Rightarrow> (Normal, run_exits m env (rev (frames m env scs s)) s')
           | Continue \<Rightarrow> (Normal, run_exits m env (rev (frames m env scs s)) s')
           | Break \<Rightarrow> (Normal, run_exits m env (rev (butlast (frames m env scs s))) s')
           | Return \<Rightarrow> (Return, s')
           | Raise \<Rightarrow> (Raise, s')))"
proof -
  have nest: "scs \<noteq> [] \<Longrightarrow> body (enter_all m env scs s) = Some (c, s') \<Longrightarrow>
        scopes m env scs body s = Some
          (case c of
             Normal \<Rightarrow> (Normal, run_exits m env (rev (frames m env scs s)) s')
           | Continue \<Rightarrow> (Normal, run_exits m env (rev (frames m env scs s)) s')
           | Break \<Rightarrow> (Normal, run_exits m env (rev (butlast (frames m env scs s))) s')
           | Return \<Rightarrow> (Return, s')
           | Raise \<Rightarrow> (Raise, s'))"
  proof (induction scs arbitrary: s rule: list_nonempty_induct)
    case (single sc)
    then show ?case
      by (cases c) (simp_all add: scope_gl_eq run_exits_def)
  next
    case (cons sc rest)
    from cons.prems have b: "body (enter_all m env rest (enter_action m env sc s)) = Some (c, s')"
      by simp
    have ne: "frames m env rest (enter_action m env sc s) \<noteq> []"
      using cons.hyps by (rule frames_not_Nil)
    show ?case
      using cons.IH [OF b] ne
      by (cases c) (simp_all add: scope_gl_eq run_exits_snoc)
  qed
  have two: "scoped (scope_begin_end_var b1 e1) (scoped (scope_begin_end_var b2 e2) body) s =
     map_option (\<lambda>r. after_body e1 (after_body e2 r)) (body (b2 (b1 s)))"
    by (simp add: scoped_begin_end_var option.map_comp comp_def)
  from nest two run_exits_trace show ?thesis by blast
qed

section \<open>RESTORE mode\<close>



section \<open>RESET mode\<close>



section \<open>The viewport\<close>

text \<open>
  C8. \<^verbatim>\<open>scope_glViewport(x,y,w,h)\<close> in RESTORE mode reads the four components of the
  viewport with one query and sets the new rectangle; its exit action sets the four
  components read, with one call, whatever state \<open>t\<close> it runs in. In RESET mode the exit
  action sets the rectangle (0,0,0,0). So when the body falls through or executes
  \<^verbatim>\<open>continue\<close>, the viewport after the scope is the one of before it in RESTORE mode, and
  (0,0,0,0) in RESET mode.
\<close>

theorem viewport_scope:
  "calls (enter_action RESTORE env (Viewport x y w h) s) =
     calls s @ [Call_glGetIntegerv GL_VIEWPORT, Call_glViewport x y w h]
   \<and> viewport (enter_action RESTORE env (Viewport x y w h) s) = (x, y, w, h)
   \<and> viewport (exit_action RESTORE env (Viewport x y w h) s t) = viewport s
   \<and> calls (exit_action RESTORE env (Viewport x y w h) s t) =
       calls t @ [case viewport s of (x0, y0, w0, h0) \<Rightarrow> Call_glViewport x0 y0 w0 h0]
   \<and> viewport (exit_action RESET env (Viewport x y w h) s t) = (0, 0, 0, 0)
   \<and> calls (exit_action RESET env (Viewport x y w h) s t) = calls t @ [Call_glViewport 0 0 0 0]
   \<and> (body (enter_action RESTORE env (Viewport x y w h) s) = Some (c, s') \<and> (c = Normal \<or> c = Continue)
      \<longrightarrow> (\<exists>s''. scope_gl RESTORE env (Viewport x y w h) body s = Some (Normal, s'')
             \<and> viewport s'' = viewport s))
   \<and> (body (enter_action RESET env (Viewport x y w h) s) = Some (c, s') \<and> (c = Normal \<or> c = Continue)
      \<longrightarrow> (\<exists>s''. scope_gl RESET env (Viewport x y w h) body s = Some (Normal, s'')
             \<and> viewport s'' = (0, 0, 0, 0)))"
  by (cases "viewport s")
     (auto simp: scope_gl_eq action_defs restore_headers unset_headers gl_calls record_call_def
        integer_state_def gl_enum written_array_def)

section \<open>The shader storage buffer\<close>

text \<open>
  C9. \<^verbatim>\<open>scope_glBindSSBO(ssbo, binding)\<close> in RESTORE mode makes one query at entry, of the
  generic binding \<^verbatim>\<open>GL_SHADER_STORAGE_BUFFER_BINDING\<close>; its exit action makes no query and
  binds the value of that one query to the indexed binding point \<^verbatim>\<open>binding\<close> and to the
  generic binding point, whatever state \<open>t\<close> it runs in. So when the body falls through or
  executes \<^verbatim>\<open>continue\<close>, the indexed binding point holds after the scope the generic
  binding of before the scope, whatever it held itself.
\<close>

theorem ssbo_scope_restores_generic_binding:
  "calls (enter_action RESTORE env (BindSSBO ssbo binding) s) =
     calls s @ [Call_glGetIntegerv GL_SHADER_STORAGE_BUFFER_BINDING,
                Call_glBindBuffer GL_SHADER_STORAGE_BUFFER ssbo,
                Call_glBindBufferBase GL_SHADER_STORAGE_BUFFER binding ssbo]
   \<and> calls (exit_action RESTORE env (BindSSBO ssbo binding) s t) =
       calls t @ [Call_glBindBufferBase GL_SHADER_STORAGE_BUFFER binding (buffer_binding s GL_SHADER_STORAGE_BUFFER),
                  Call_glBindBuffer GL_SHADER_STORAGE_BUFFER (buffer_binding s GL_SHADER_STORAGE_BUFFER)]
   \<and> indexed_buffer_binding (exit_action RESTORE env (BindSSBO ssbo binding) s t)
         GL_SHADER_STORAGE_BUFFER binding = buffer_binding s GL_SHADER_STORAGE_BUFFER
   \<and> buffer_binding (exit_action RESTORE env (BindSSBO ssbo binding) s t) GL_SHADER_STORAGE_BUFFER =
       buffer_binding s GL_SHADER_STORAGE_BUFFER
   \<and> (body (enter_action RESTORE env (BindSSBO ssbo binding) s) = Some (c, s') \<and> (c = Normal \<or> c = Continue)
      \<longrightarrow> (\<exists>s''. scope_gl RESTORE env (BindSSBO ssbo binding) body s = Some (Normal, s'')
             \<and> indexed_buffer_binding s'' GL_SHADER_STORAGE_BUFFER binding =
                 buffer_binding s GL_SHADER_STORAGE_BUFFER
             \<and> buffer_binding s'' GL_SHADER_STORAGE_BUFFER = buffer_binding s GL_SHADER_STORAGE_BUFFER))"
  by (auto simp: scope_gl_eq action_defs restore_headers gl_calls record_call_def
        integer_state_def gl_enum written_to_def)

section \<open>The uniform scopes\<close>

text \<open>
  C7, as the code has it. Both uniform scopes read the program in use once, at entry.
  They look the location of the name up in that program twice at entry, for the
  read-back of the uniform's value and for the write of the new value, and once more on
  exit, for the write of the value read back: the location is not kept, the program
  is. \<^verbatim>\<open>glUniform*\<close> writes to the program in use when it is called. So when the body falls
  through or executes \<^verbatim>\<open>continue\<close>, the value read back at entry is written to the
  program in use at exit, at the location the name has in the program of the entry; the
  uniform has its old value again when the body left the program in use and the
  location as they were, and the uniform is a float, or 16 floats for the matrix scope.
\<close>

theorem uniform_scope_lookups:
  "(let p = current_program s; l = uniform_location s p name; l' = uniform_location s' p name;
        old = written_to (indeterminate_float env) (if l = - 1 then [] else uniform_value s p l)
    in calls (enter_action m env (Uniformfv val name) s) =
         calls s @ [Call_glGetIntegerv GL_CURRENT_PROGRAM, Call_glGetUniformLocation p name,
                    Call_glGetUniformfv p l, Call_glGetUniformLocation p name, Call_glUniform1f l val]
       \<and> (body (enter_action m env (Uniformfv val name) s) = Some (c, s') \<and> (c = Normal \<or> c = Continue)
          \<longrightarrow> (\<exists>s''. scope_gl m env (Uniformfv val name) body s = Some (Normal, s'')
                 \<and> calls s'' = calls s' @ [Call_glGetUniformLocation p name, Call_glUniform1f l' old]
                 \<and> (l' \<noteq> - 1 \<longrightarrow> uniform_value s'' (current_program s') l' = [old])
                 \<and> (current_program s' = p \<and> l' = l \<and> l \<noteq> - 1 \<and> length (uniform_value s p l) = 1
                    \<longrightarrow> uniform_value s'' p l = uniform_value s p l))))
   \<and> (let p = current_program s; l = uniform_location s p name; l' = uniform_location s' p name;
        old = written_array (indeterminate_floats env) (if l = - 1 then [] else uniform_value s p l)
    in calls (enter_action m env (UniformMatrix4fv matrix name) s) =
         calls s @ [Call_glGetIntegerv GL_CURRENT_PROGRAM, Call_glGetUniformLocation p name,
                    Call_glGetUniformfv p l, Call_glGetUniformLocation p name,
                    Call_glUniformMatrix4fv l 1 GL_FALSE matrix]
       \<and> (body (enter_action m env (UniformMatrix4fv matrix name) s) = Some (c, s') \<and> (c = Normal \<or> c = Continue)
          \<longrightarrow> (\<exists>s''. scope_gl m env (UniformMatrix4fv matrix name) body s = Some (Normal, s'')
                 \<and> calls s'' = calls s' @ [Call_glGetUniformLocation p name,
                                            Call_glUniformMatrix4fv l' 1 GL_FALSE old]
                 \<and> (l' \<noteq> - 1 \<longrightarrow> uniform_value s'' (current_program s') l' = take 16 old)
                 \<and> (current_program s' = p \<and> l' = l \<and> l \<noteq> - 1 \<and> length (uniform_value s p l) = 16
                    \<longrightarrow> uniform_value s'' p l = uniform_value s p l))))"
proof -
  have uf: "scope_actions m env (Uniformfv val name) = nested_actions env (uniformfv_inner env val name)"
    and um: "scope_actions m env (UniformMatrix4fv matrix name) =
             nested_actions env (uniformMatrix4fv_inner env matrix name)"
    by (cases m; simp)+
  have one: "length v = Suc 0 \<Longrightarrow> [written_to d v] = v" for d and v :: "GLfloat list"
    by (cases v) (simp_all add: written_to_def)
  show ?thesis
    by (auto simp: Let_def scope_gl_eq enter_action_def exit_action_def uf um nested_actions_def
        header_enter_def header_exit_def uniform_prog_def uniform_headers gl_calls record_call_def
        integer_state_def written_to_def [of _ "[_]"] written_array_def set_uniform_def one)
qed

text \<open>
  C7 as stated fails: the program 1 is in use, where \<^verbatim>\<open>u\<close> has the location 4 and the value
  7, and the body of \<^verbatim>\<open>scope_glUniformfv(8, "u")\<close> calls \<^verbatim>\<open>glUseProgram(2)\<close>, where \<^verbatim>\<open>u\<close> has
  the location 6. The exit looks \<^verbatim>\<open>u\<close> up in the program 1, which is not in use, and
  writes 7 to the location 4 of the program 2; the uniform of the program 1 keeps the
  value 8.
\<close>

theorem uniform_exit_looks_up_entry_program:
  "map_option (\<lambda>(c, t). (c, calls t, current_program t, uniform_value t 1 4, uniform_value t 2 4))
     (scope_gl RESTORE sample_env (Uniformfv 8 ''u'') (call_stmt (glUseProgram 2))
        (initial_context\<lparr>current_program := 1,
           uniform_location := (\<lambda>p n. if n = ''u'' then (if p = 1 then 4 else 6) else - 1),
           uniform_value := (\<lambda>p l. [7])\<rparr>)) =
   Some (Normal,
     [Call_glGetIntegerv GL_CURRENT_PROGRAM, Call_glGetUniformLocation 1 ''u'',
      Call_glGetUniformfv 1 4, Call_glGetUniformLocation 1 ''u'', Call_glUniform1f 4 8,
      Call_glUseProgram 2, Call_glGetUniformLocation 1 ''u'', Call_glUniform1f 4 7],
     2, [8], [7])"
  by (simp add: scope_gl_eq action_defs uniform_headers gl_calls record_call_def call_stmt_def
        initial_context_def integer_state_def written_to_def set_uniform_def)

section \<open>The frame of a scope\<close>
































section \<open>The RESTORE expansions that do not restore\<close>

text \<open>
  \<^verbatim>\<open>_restore_glBindBuffer\<close> does not use its argument \<^verbatim>\<open>buffer\<close>: it binds the caller's \<^verbatim>\<open>vbo\<close>
  at entry and the caller's \<^verbatim>\<open>UQ(old_vbo)\<close> on exit.
\<close>

lemma restore_glBindBuffer_ignores_buffer:
  "scope_gl RESTORE env (BindBuffer target buffer) = scope_gl RESTORE env (BindBuffer target 0)"
  by (simp add: scope_gl.simps restore_glBindBuffer_def)

lemma restore_glBindBuffer_binds_caller_names:
  "map_option (\<lambda>(c, t). (c, buffer_binding t GL_ARRAY_BUFFER, calls t))
     (scope_gl RESTORE (sample_env\<lparr>caller_vbo := 11, caller_old_vbo := 12\<rparr>) (BindBuffer GL_ARRAY_BUFFER 7) skip
        (initial_context\<lparr>buffer_binding := (\<lambda>t. if t = GL_ARRAY_BUFFER then 5 else 0)\<rparr>)) =
   Some (Normal, 12,
     [Call_glGetIntegerv GL_BUFFER_BINDING, Call_glBindBuffer GL_ARRAY_BUFFER 11,
      Call_glBindBuffer GL_ARRAY_BUFFER 12])"
  by (simp add: scope_gl_eq action_defs restore_headers gl_calls record_call_def skip_def
        initial_context_def sample_env_def)

text \<open>
  \<^verbatim>\<open>_restore_glBindFramebuffer\<close> queries its target, which is no state of the context, and
  binds the indeterminate content of its local on exit.
\<close>

lemma restore_glBindFramebuffer_binds_indeterminate:
  "map_option (\<lambda>(c, t). (c, draw_framebuffer_binding t, calls t))
     (scope_gl RESTORE sample_env (BindFramebuffer GL_FRAMEBUFFER 7) skip
        (initial_context\<lparr>draw_framebuffer_binding := 3, read_framebuffer_binding := 3\<rparr>)) =
   Some (Normal, 0xCCCCCCCC,
     [Call_glGetIntegerv GL_FRAMEBUFFER, Call_glBindFramebuffer GL_FRAMEBUFFER 7,
      Call_glBindFramebuffer GL_FRAMEBUFFER 0xCCCCCCCC])"
  by (simp add: scope_gl_eq action_defs restore_headers gl_calls record_call_def skip_def
        initial_context_def sample_env_def integer_state_def texture_binding_targets_def gl_enum
        written_to_def)

text \<open>
  \<^verbatim>\<open>_restore_glEnable\<close> on a disabled capability: one byte of the local is written, the
  whole local is tested, and the capability stays enabled when another byte is not zero.
\<close>

lemma restore_glEnable_reads_whole_int:
  "map_option (\<lambda>(c, t). (c, capability t GL_BLEND, calls t))
     (scope_gl RESTORE sample_env (Enable GL_BLEND) skip initial_context) =
   Some (Normal, True,
     [Call_glGetBooleanv GL_BLEND, Call_glEnable GL_BLEND, Call_glEnable GL_BLEND])"
  by (simp add: scope_gl_eq action_defs restore_headers gl_calls record_call_def skip_def
        initial_context_def sample_env_def written_boolean_def gl_enum)

section \<open>Instances\<close>



text \<open>
  Instances of C4. The program 3 is in use; \<^verbatim>\<open>scope_glUseProgram(7) scope_glUseProgram(8)
  glBindVertexArray(4);\<close> in RESTORE mode: the inner scope reads 7 and the outer one 3, and
  the inner exit runs first. And \<^verbatim>\<open>scope_glEnable(GL_BLEND) scope_glBindTexture2D(5) ;\<close> in
  RESET mode unbinds the texture and then disables the capability.
\<close>

theorem nested_exits_order_witness:
  "scopes RESTORE sample_env [UseProgram 7, UseProgram 8] (call_stmt (glBindVertexArray 4))
     (initial_context\<lparr>current_program := 3\<rparr>) =
   Some (Normal, initial_context\<lparr>current_program := 3, vertex_array_binding := 4,
     calls := [Call_glGetIntegerv GL_CURRENT_PROGRAM, Call_glUseProgram 7,
               Call_glGetIntegerv GL_CURRENT_PROGRAM, Call_glUseProgram 8,
               Call_glBindVertexArray 4, Call_glUseProgram 7, Call_glUseProgram 3]\<rparr>)
   \<and> map_option (\<lambda>(c, t). (c, calls t))
       (scopes RESET sample_env [Enable GL_BLEND, BindTexture2D 5] skip initial_context) =
     Some (Normal, [Call_glEnable GL_BLEND, Call_glBindTexture GL_TEXTURE_2D 5,
                    Call_glBindTexture GL_TEXTURE_2D 0, Call_glDisable GL_BLEND])"
proof -
  let ?s = "initial_context\<lparr>current_program := 3\<rparr>"
  let ?scs = "[UseProgram 7, UseProgram 8]"
  let ?s' = "glBindVertexArray 4 (enter_all RESTORE sample_env ?scs ?s)"
  have b: "?scs \<noteq> [] \<and>
      call_stmt (glBindVertexArray 4) (enter_all RESTORE sample_env ?scs ?s) = Some (Normal, ?s')"
    by (simp add: call_stmt_def)
  note t = nested_exits_order
    [where body = "call_stmt (glBindVertexArray 4)" and m = RESTORE and env = sample_env
       and scs = ?scs and s = ?s and s' = ?s' and c = Normal,
     THEN conjunct2, THEN conjunct2, THEN mp, OF b]
  have first: "scopes RESTORE sample_env ?scs (call_stmt (glBindVertexArray 4)) ?s =
     Some (Normal, initial_context\<lparr>current_program := 3, vertex_array_binding := 4,
       calls := [Call_glGetIntegerv GL_CURRENT_PROGRAM, Call_glUseProgram 7,
                 Call_glGetIntegerv GL_CURRENT_PROGRAM, Call_glUseProgram 8,
                 Call_glBindVertexArray 4, Call_glUseProgram 7, Call_glUseProgram 3]\<rparr>)"
    using t
    by (simp add: run_exits_def action_defs restore_headers gl_calls record_call_def
          initial_context_def integer_state_def written_to_def)
  let ?rcs = "[Enable GL_BLEND, BindTexture2D 5]"
  let ?r' = "enter_all RESET sample_env ?rcs initial_context"
  have b2: "?rcs \<noteq> [] \<and> skip ?r' = Some (Normal, ?r')"
    by (simp add: skip_def)
  note t2 = nested_exits_order
    [where body = skip and m = RESET and env = sample_env and scs = ?rcs and s = initial_context
       and s' = ?r' and c = Normal and fs = "rev (frames RESET sample_env ?rcs initial_context)"]
  from t2 b2 have r: "scopes RESET sample_env ?rcs skip initial_context =
       Some (Normal, run_exits RESET sample_env (rev (frames RESET sample_env ?rcs initial_context)) ?r')"
    and tr: "calls (run_exits RESET sample_env (rev (frames RESET sample_env ?rcs initial_context)) ?r') =
       calls ?r' @ exits_trace RESET sample_env (rev (frames RESET sample_env ?rcs initial_context)) ?r'"
    by simp_all
  have "calls ?r' = [Call_glEnable GL_BLEND, Call_glBindTexture GL_TEXTURE_2D 5]"
    by (simp add: action_defs unset_headers gl_calls record_call_def initial_context_def)
  with tr have "calls (run_exits RESET sample_env (rev (frames RESET sample_env ?rcs initial_context)) ?r') =
       [Call_glEnable GL_BLEND, Call_glBindTexture GL_TEXTURE_2D 5,
        Call_glBindTexture GL_TEXTURE_2D 0, Call_glDisable GL_BLEND]"
    by (simp add: exits_trace_def)
  with r first show ?thesis by simp
qed

text \<open>
  C4 as stated fails: the program 3 is in use; in \<^verbatim>\<open>scope_glUseProgram(7)
  scope_glBindVertexArray(4) break;\<close> in RESTORE mode the exit action of the first-opened
  scope runs and that of the last-opened scope never does: the vertex array 4 stays
  bound. In \<^verbatim>\<open>scope_glUseProgram(7) scope_glBindVertexArray(4) return;\<close> in RESET mode no
  exit action runs.
\<close>

theorem last_opened_exit_skipped_on_break:
  "scopes RESTORE sample_env [UseProgram 7, BindVertexArray 4] break_stmt
     (initial_context\<lparr>current_program := 3\<rparr>) =
   Some (Normal, initial_context\<lparr>current_program := 3, vertex_array_binding := 4,
     calls := [Call_glGetIntegerv GL_CURRENT_PROGRAM, Call_glUseProgram 7,
               Call_glGetIntegerv GL_VERTEX_ARRAY_BINDING, Call_glBindVertexArray 4,
               Call_glUseProgram 3]\<rparr>)
   \<and> scopes RESET sample_env [UseProgram 7, BindVertexArray 4] return_stmt
     (initial_context\<lparr>current_program := 3\<rparr>) =
   Some (Return, initial_context\<lparr>current_program := 7, vertex_array_binding := 4,
     calls := [Call_glUseProgram 7, Call_glBindVertexArray 4]\<rparr>)"
  by (simp add: scope_gl_eq action_defs restore_headers unset_headers gl_calls record_call_def
        break_stmt_def return_stmt_def initial_context_def integer_state_def gl_enum written_to_def)



text \<open>
  An instance of C8: the viewport is (0,0,800,600); \<^verbatim>\<open>scope_glViewport(10,10,100,100) ;\<close>
  leaves it (0,0,800,600) in RESTORE mode and (0,0,0,0) in RESET mode.
\<close>

theorem viewport_scope_witness:
  "map_option (\<lambda>(c, t). (c, viewport t))
     (scope_gl RESTORE sample_env (Viewport 10 10 100 100) skip
        (initial_context\<lparr>viewport := (0, 0, 800, 600)\<rparr>)) = Some (Normal, (0, 0, 800, 600))
   \<and> map_option (\<lambda>(c, t). (c, viewport t))
     (scope_gl RESET sample_env (Viewport 10 10 100 100) skip
        (initial_context\<lparr>viewport := (0, 0, 800, 600)\<rparr>)) = Some (Normal, (0, 0, 0, 0))"
proof -
  let ?s = "initial_context\<lparr>viewport := (0, 0, 800, 600)\<rparr>"
  let ?r = "enter_action RESTORE sample_env (Viewport 10 10 100 100) ?s"
  let ?u = "enter_action RESET sample_env (Viewport 10 10 100 100) ?s"
  have b: "skip ?r = Some (Normal, ?r)" "skip ?u = Some (Normal, ?u)" by (simp_all add: skip_def)
  from viewport_scope [of sample_env 10 10 100 100 ?s _ skip Normal ?r] b(1)
  have 1: "\<exists>s''. scope_gl RESTORE sample_env (Viewport 10 10 100 100) skip ?s = Some (Normal, s'')
             \<and> viewport s'' = (0, 0, 800, 600)"
    by simp
  from viewport_scope [of sample_env 10 10 100 100 ?s _ skip Normal ?u] b(2)
  have 2: "\<exists>s''. scope_gl RESET sample_env (Viewport 10 10 100 100) skip ?s = Some (Normal, s'')
             \<and> viewport s'' = (0, 0, 0, 0)"
    by simp
  from 1 2 show ?thesis by auto
qed

text \<open>
  An instance of C9: the buffer 5 is bound to the generic shader storage binding point
  and the buffer 6 to the indexed binding point 2; after \<^verbatim>\<open>scope_glBindSSBO(9, 2) ;\<close> in
  RESTORE mode the buffer 5 is bound to both.
\<close>

theorem ssbo_scope_restores_generic_binding_witness:
  "map_option (\<lambda>(c, t). (c, indexed_buffer_binding t GL_SHADER_STORAGE_BUFFER 2,
                            buffer_binding t GL_SHADER_STORAGE_BUFFER))
     (scope_gl RESTORE sample_env (BindSSBO 9 2) skip
        (initial_context\<lparr>buffer_binding := (\<lambda>t. if t = GL_SHADER_STORAGE_BUFFER then 5 else 0),
           indexed_buffer_binding := (\<lambda>t i. if t = GL_SHADER_STORAGE_BUFFER \<and> i = 2 then 6 else 0)\<rparr>)) =
   Some (Normal, 5, 5)"
proof -
  let ?s = "initial_context\<lparr>buffer_binding := (\<lambda>t. if t = GL_SHADER_STORAGE_BUFFER then 5 else 0),
           indexed_buffer_binding := (\<lambda>t i. if t = GL_SHADER_STORAGE_BUFFER \<and> i = 2 then 6 else 0)\<rparr>"
  let ?s' = "enter_action RESTORE sample_env (BindSSBO 9 2) ?s"
  have b: "skip ?s' = Some (Normal, ?s')" by (simp add: skip_def)
  from ssbo_scope_restores_generic_binding [of sample_env 9 2 ?s _ skip Normal ?s'] b
  show ?thesis
    by (auto simp: initial_context_def)
qed

text \<open>
  Instances of C7: the program 1 is in use, where \<^verbatim>\<open>u\<close> has the location 4 and the value
  7; \<^verbatim>\<open>scope_glUniformfv(8, "u") ;\<close> makes these calls and leaves the value 7. And where
  \<^verbatim>\<open>m\<close> has the location 4 and holds twice the unit matrix,
  \<^verbatim>\<open>scope_glUniformMatrix4fv(unit, "m") ;\<close> leaves twice the unit matrix.
\<close>

theorem uniform_scope_lookups_witness:
  "map_option (\<lambda>(c, t). (c, calls t, uniform_value t 1 4))
     (scope_gl RESET sample_env (Uniformfv 8 ''u'') skip
        (initial_context\<lparr>current_program := 1,
           uniform_location := (\<lambda>p n. if n = ''u'' then (if p = 1 then 4 else 6) else - 1),
           uniform_value := (\<lambda>p l. [7])\<rparr>)) =
   Some (Normal,
     [Call_glGetIntegerv GL_CURRENT_PROGRAM, Call_glGetUniformLocation 1 ''u'',
      Call_glGetUniformfv 1 4, Call_glGetUniformLocation 1 ''u'', Call_glUniform1f 4 8,
      Call_glGetUniformLocation 1 ''u'', Call_glUniform1f 4 7],
     [7])
   \<and> map_option (\<lambda>(c, t). (c, uniform_value t 1 4))
     (scope_gl RESTORE sample_env (UniformMatrix4fv [1, 0, 0, 0, 0, 1, 0, 0, 0, 0, 1, 0, 0, 0, 0, 1] ''m'') skip
        (initial_context\<lparr>current_program := 1,
           uniform_location := (\<lambda>p n. if n = ''m'' then 4 else - 1),
           uniform_value := (\<lambda>p l. [2, 0, 0, 0, 0, 2, 0, 0, 0, 0, 2, 0, 0, 0, 0, 2])\<rparr>)) =
   Some (Normal, [2, 0, 0, 0, 0, 2, 0, 0, 0, 0, 2, 0, 0, 0, 0, 2])"
proof -
  let ?s = "initial_context\<lparr>current_program := 1,
           uniform_location := (\<lambda>p n. if n = ''u'' then (if p = 1 then 4 else 6) else - 1),
           uniform_value := (\<lambda>p l. [7])\<rparr>"
  let ?s' = "enter_action RESET sample_env (Uniformfv 8 ''u'') ?s"
  have b: "skip ?s' = Some (Normal, ?s')" by (simp add: skip_def)
  have c: "Normal = Normal \<or> Normal = Continue" by simp
  note t = uniform_scope_lookups
    [where s = ?s and name = "''u''" and s' = ?s' and env = sample_env and m = RESET
       and val = 8 and body = skip and c = Normal,
     THEN conjunct1, unfolded Let_def, THEN conjunct2, THEN mp, OF conjI [OF b c]]
  then obtain s'' where r: "scope_gl RESET sample_env (Uniformfv 8 ''u'') skip ?s = Some (Normal, s'')"
    and tr: "calls s'' = calls ?s' @
       [Call_glGetUniformLocation (current_program ?s) ''u'',
        Call_glUniform1f (uniform_location ?s' (current_program ?s) ''u'')
          (written_to (indeterminate_float sample_env)
             (if uniform_location ?s (current_program ?s) ''u'' = - 1 then []
              else uniform_value ?s (current_program ?s) (uniform_location ?s (current_program ?s) ''u'')))]"
    and v: "current_program ?s' = current_program ?s \<and>
            uniform_location ?s' (current_program ?s) ''u'' = uniform_location ?s (current_program ?s) ''u'' \<and>
            uniform_location ?s (current_program ?s) ''u'' \<noteq> - 1 \<and>
            length (uniform_value ?s (current_program ?s) (uniform_location ?s (current_program ?s) ''u'')) = 1
            \<longrightarrow> uniform_value s'' (current_program ?s) (uniform_location ?s (current_program ?s) ''u'') =
                uniform_value ?s (current_program ?s) (uniform_location ?s (current_program ?s) ''u'')"
    by blast
  have e: "calls ?s' =
     [Call_glGetIntegerv GL_CURRENT_PROGRAM, Call_glGetUniformLocation 1 ''u'',
      Call_glGetUniformfv 1 4, Call_glGetUniformLocation 1 ''u'', Call_glUniform1f 4 8]"
    "current_program ?s' = 1" "uniform_location ?s' = uniform_location ?s"
    by (simp_all add: action_defs uniform_headers gl_calls record_call_def initial_context_def
          integer_state_def written_to_def)
  from tr e have "calls s'' =
     [Call_glGetIntegerv GL_CURRENT_PROGRAM, Call_glGetUniformLocation 1 ''u'',
      Call_glGetUniformfv 1 4, Call_glGetUniformLocation 1 ''u'', Call_glUniform1f 4 8,
      Call_glGetUniformLocation 1 ''u'', Call_glUniform1f 4 7]"
    by (simp add: written_to_def)
  moreover from v e have "uniform_value s'' 1 4 = [7]"
    by simp
  ultimately have first: "map_option (\<lambda>(c, t). (c, calls t, uniform_value t 1 4))
     (scope_gl RESET sample_env (Uniformfv 8 ''u'') skip ?s) =
   Some (Normal,
     [Call_glGetIntegerv GL_CURRENT_PROGRAM, Call_glGetUniformLocation 1 ''u'',
      Call_glGetUniformfv 1 4, Call_glGetUniformLocation 1 ''u'', Call_glUniform1f 4 8,
      Call_glGetUniformLocation 1 ''u'', Call_glUniform1f 4 7],
     [7])"
    using r by simp
  let ?id = "[1, 0, 0, 0, 0, 1, 0, 0, 0, 0, 1, 0, 0, 0, 0, 1] :: GLfloat list"
  let ?old = "[2, 0, 0, 0, 0, 2, 0, 0, 0, 0, 2, 0, 0, 0, 0, 2] :: GLfloat list"
  let ?q = "initial_context\<lparr>current_program := 1,
           uniform_location := (\<lambda>p n. if n = ''m'' then 4 else - 1),
           uniform_value := (\<lambda>p l. ?old)\<rparr>"
  let ?q' = "enter_action RESTORE sample_env (UniformMatrix4fv ?id ''m'') ?q"
  have b2: "skip ?q' = Some (Normal, ?q')" by (simp add: skip_def)
  note t2 = uniform_scope_lookups
    [where s = ?q and name = "''m''" and s' = ?q' and env = sample_env and m = RESTORE
       and matrix = ?id and body = skip and c = Normal,
     THEN conjunct2, unfolded Let_def, THEN conjunct2, THEN mp, OF conjI [OF b2 c]]
  then obtain q'' where r2: "scope_gl RESTORE sample_env (UniformMatrix4fv ?id ''m'') skip ?q = Some (Normal, q'')"
    and v2: "current_program ?q' = current_program ?q \<and>
            uniform_location ?q' (current_program ?q) ''m'' = uniform_location ?q (current_program ?q) ''m'' \<and>
            uniform_location ?q (current_program ?q) ''m'' \<noteq> - 1 \<and>
            length (uniform_value ?q (current_program ?q) (uniform_location ?q (current_program ?q) ''m'')) = 16
            \<longrightarrow> uniform_value q'' (current_program ?q) (uniform_location ?q (current_program ?q) ''m'') =
                uniform_value ?q (current_program ?q) (uniform_location ?q (current_program ?q) ''m'')"
    by blast
  have e2: "current_program ?q' = 1" "uniform_location ?q' = uniform_location ?q"
    by (simp_all add: action_defs uniform_headers gl_calls record_call_def)
  from v2 e2 have "uniform_value q'' 1 4 = ?old"
    by simp
  with r2 first show ?thesis by simp
qed



end
